theory Spec2Isabelle
  imports Complex_Main "HOL-Library.Char_ord" "HOL-Library.List_Lexorder"
begin

section \<open>Live values\<close>

text \<open>
  The values a form session holds for its fields: a string for the text-like inputs, a
  boolean for a checkbox, a list of option strings for a checklist, a number for a range
  slider, a pair of strings for a min/max input and a file list for a file input, with
  JavaScript's \<open>undefined\<close> and \<open>null\<close>. Numbers are the finite ones, as rationals (the
  code only compares them); strings are lists of 8-bit characters, and the order on them
  (\<open>HOL-Library.List_Lexorder\<close> over \<open>Char_ord\<close>) is the code-unit order of
  JavaScript's \<open><\<close> on strings.
\<close>

record File =
  file_name :: string
  file_size :: rat
  file_type :: string

datatype jsval =
    Undefined
  | Null
  | Bool bool
  | Num rat
  | Str string
  | StrList "string list"
  | MinMax string string
  | Files "File list"

fun truthy :: "jsval \<Rightarrow> bool" where
  "truthy Undefined = False"
| "truthy Null = False"
| "truthy (Bool b) = b"
| "truthy (Num r) = (r \<noteq> 0)"
| "truthy (Str s) = (s \<noteq> [])"
| "truthy (StrList xs) = True"
| "truthy (MinMax a b) = True"
| "truthy (Files fs) = True"

text \<open>The \<open>length\<close> property: strings, arrays and file lists have one.\<close>

fun js_length :: "jsval \<Rightarrow> nat option" where
  "js_length (Str s) = Some (length s)"
| "js_length (StrList xs) = Some (length xs)"
| "js_length (Files fs) = Some (length fs)"
| "js_length v = None"

text \<open>Reading a property of a min/max object; any other key is \<open>undefined\<close>.\<close>

definition get_prop :: "string \<Rightarrow> string \<Rightarrow> string \<Rightarrow> jsval" where
  "get_prop a b k = (if k = ''min'' then Str a else if k = ''max'' then Str b else Undefined)"

text \<open>
  Error messages are template strings over the rule's numbers; a message is kept as its
  fragments, so that no number is printed.
\<close>

datatype frag = S string | N rat

type_synonym message = "frag list"

text \<open>\<open>x || d\<close> on an optional string: the empty string is falsy too.\<close>

definition or_default :: "string option \<Rightarrow> message \<Rightarrow> message" where
  "or_default x d = (case x of None \<Rightarrow> d | Some s \<Rightarrow> if s = [] then d else [S s])"

section \<open>The validation library\<close>

text \<open>
  The compilers build validators of the zod library (version 4: \<open>refine\<close> on a string
  schema returns a string schema, which the date rules rely on). The library is not part
  of the repository; this section models the part of it the compilers use. A schema is the
  syntax tree a builder constructs; a check is one rule attached to it; every closure the
  source passes to \<open>refine\<close> is a constructor holding the variables it captures, and
  \<open>run_check\<close> gives its body.
\<close>

datatype check =
    MinLength rat "message option"     \<comment> \<open>\<open>.min(n, msg)\<close> on a string or an array\<close>
  | MaxLength rat "message option"     \<comment> \<open>\<open>.max(n, msg)\<close> on a string or an array\<close>
  | MinValue rat "message option"      \<comment> \<open>\<open>.min(n, msg)\<close> on a number\<close>
  | MaxValue rat "message option"      \<comment> \<open>\<open>.max(n, msg)\<close> on a number\<close>
  | Email message                      \<comment> \<open>\<open>.email(msg)\<close>\<close>
  | PhoneRegex message                 \<comment> \<open>\<open>.regex(/^\+?[0-9\s\-()]{7,20}$/, msg)\<close>\<close>
  | OnOrAfter string message           \<comment> \<open>\<open>(val) => !val || val >= v.minDate\<close>\<close>
  | OnOrBefore string message          \<comment> \<open>\<open>(val) => !val || val <= v.maxDate\<close>\<close>
  | IsTrue message                     \<comment> \<open>\<open>(val) => val === true\<close>\<close>
  | IsTruthy message                   \<comment> \<open>\<open>(val) => val\<close>\<close>
  | HasFiles message                   \<comment> \<open>\<open>files && files.length > 0\<close>\<close>
  | HasLength message                  \<comment> \<open>\<open>(val) => val?.length > 0\<close>\<close>
  | FileCountAtMost rat message        \<comment> \<open>\<open>!files || files.length <= field.maxFiles\<close>\<close>
  | FileSizesAtMost rat message        \<comment> \<open>no file larger than \<open>maxFileSize * 1024\<close>\<close>

datatype zschema =
    ZString "check list"               \<comment> \<open>\<open>z.string()\<close>\<close>
  | ZNumber "check list"               \<comment> \<open>\<open>z.number()\<close>\<close>
  | ZCoerceNumber "check list"         \<comment> \<open>\<open>z.coerce.number()\<close>\<close>
  | ZBoolean "check list"              \<comment> \<open>\<open>z.boolean()\<close>\<close>
  | ZArray zschema "check list"        \<comment> \<open>\<open>z.array(s)\<close>\<close>
  | ZObject "(string \<times> zschema) list"  \<comment> \<open>\<open>z.object({...})\<close>\<close>
  | ZAny "check list"                  \<comment> \<open>\<open>z.any()\<close>\<close>
  | ZLiteral string                    \<comment> \<open>\<open>z.literal(s)\<close>\<close>
  | ZOptional zschema                  \<comment> \<open>\<open>s.optional()\<close>\<close>
  | ZUnion zschema zschema             \<comment> \<open>\<open>a.or(b)\<close>, \<open>z.union([a, b])\<close>\<close>

text \<open>
  An issue is what one failed rule reports. A rule with a message of its own reports it;
  the others report the library's default for their kind. A union whose alternatives all
  fail reports the issues of the one alternative that got past its type test, as they
  are; when none or several did, it reports one issue that holds the issues of each
  alternative. An issue inside an array or an object carries the index or the key.
\<close>

datatype issue =
    Invalid_type string
  | Invalid_value
  | Too_small rat
  | Too_big rat
  | Msg message
  | Invalid_union "issue list" "issue list"
  | AtIndex nat issue
  | AtKey string issue

text \<open>
  Issues of a failed type test stop the rules that follow; issues of the rules themselves
  do not (no rule of the source sets \<open>abort\<close>).
\<close>

fun continuable :: "issue \<Rightarrow> bool" where
  "continuable (Too_small n) = True"
| "continuable (Too_big n) = True"
| "continuable (Msg m) = True"
| "continuable (AtIndex i e) = continuable e"
| "continuable (AtKey k e) = continuable e"
| "continuable e = False"

definition aborted :: "issue list \<Rightarrow> bool" where
  "aborted es = list_ex (\<lambda>e. \<not> continuable e) es"

subsection \<open>The built-in formats\<close>

definition is_digit :: "char \<Rightarrow> bool" where
  "is_digit c = (CHR ''0'' \<le> c \<and> c \<le> CHR ''9'')"

definition is_alpha :: "char \<Rightarrow> bool" where
  "is_alpha c = ((CHR ''a'' \<le> c \<and> c \<le> CHR ''z'') \<or> (CHR ''A'' \<le> c \<and> c \<le> CHR ''Z''))"

definition is_alnum :: "char \<Rightarrow> bool" where
  "is_alnum c = (is_alpha c \<or> is_digit c)"

text \<open>The class \<open>\s\<close> among the 8-bit characters.\<close>

definition is_space :: "char \<Rightarrow> bool" where
  "is_space c = (of_char c \<in> {9, 10, 11, 12, 13, 32, 160 :: nat})"

text \<open>\<open>s.split(c)\<close> for a one-character separator.\<close>

fun split_on :: "char \<Rightarrow> string \<Rightarrow> string list" where
  "split_on c [] = [[]]"
| "split_on c (x # xs) =
     (if x = c then [] # split_on c xs
      else (case split_on c xs of [] \<Rightarrow> [[x]] | p # ps \<Rightarrow> (x # p) # ps))"

fun has_double_dot :: "string \<Rightarrow> bool" where
  "has_double_dot (a # b # r) = ((a = CHR ''.'' \<and> b = CHR ''.'') \<or> has_double_dot (b # r))"
| "has_double_dot s = False"

text \<open>
  The library's email pattern,
  \<open>/^(?!\.)(?!.*\.\.)([A-Za-z0-9_'+\-\.]*)[A-Za-z0-9_+-]@([A-Za-z0-9][A-Za-z0-9\-]*\.)+[A-Za-z]{2,}$/\<close>:
  a local part that does not start with a dot, has no two dots in a row and ends in a
  letter, digit or one of \<open>_ + -\<close>; one \<open>@\<close>; one or more labels, each ended by a dot;
  two or more letters.
\<close>

definition local_char :: "char \<Rightarrow> bool" where
  "local_char c = (is_alnum c \<or> c \<in> set ''_'' \<or> c = CHR 0x27 \<or> c \<in> set ''+-.'')"

definition local_end_char :: "char \<Rightarrow> bool" where
  "local_end_char c = (is_alnum c \<or> c \<in> set ''_+-'')"

definition domain_label :: "string \<Rightarrow> bool" where
  "domain_label l =
     (case l of [] \<Rightarrow> False
      | c # r \<Rightarrow> is_alnum c \<and> list_all (\<lambda>d. is_alnum d \<or> d = CHR ''-'') r)"

definition email_domain :: "string \<Rightarrow> bool" where
  "email_domain d =
     (let ls = split_on CHR ''.'' d
      in 2 \<le> length ls \<and> list_all domain_label (butlast ls) \<and>
         2 \<le> length (last ls) \<and> list_all is_alpha (last ls))"

definition zod_email :: "string \<Rightarrow> bool" where
  "zod_email s =
     (let l = takeWhile (\<lambda>c. c \<noteq> CHR ''@'') s; r = dropWhile (\<lambda>c. c \<noteq> CHR ''@'') s
      in (case r of [] \<Rightarrow> False
          | x # d \<Rightarrow>
              (case l of [] \<Rightarrow> False
               | c # cs \<Rightarrow> c \<noteq> CHR ''.'' \<and> \<not> has_double_dot s \<and> list_all local_char l \<and>
                          local_end_char (last l) \<and> email_domain d)))"

text \<open>
  The pattern read as a description of the strings it matches: \<open>zod_email\<close> computes
  this (\<open>zod_email_iff\<close> below).
\<close>

definition email_shape :: "string \<Rightarrow> bool" where
  "email_shape s =
     (\<exists>l labels tld.
        s = l @ ''@'' @ concat (map (\<lambda>x. x @ ''.'') labels) @ tld \<and>
        take 1 s \<noteq> ''.'' \<and> \<not> has_double_dot s \<and>
        l \<noteq> [] \<and> list_all local_char l \<and> local_end_char (last l) \<and>
        labels \<noteq> [] \<and> list_all domain_label labels \<and>
        2 \<le> length tld \<and> list_all is_alpha tld)"

text \<open>The phone pattern \<open>/^\+?[0-9\s\-()]{7,20}$/\<close> of the source.\<close>

definition phone_char :: "char \<Rightarrow> bool" where
  "phone_char c = (is_digit c \<or> is_space c \<or> c \<in> set ''-()'')"

definition phone_regex :: "string \<Rightarrow> bool" where
  "phone_regex s =
     (let body = (case s of [] \<Rightarrow> [] | c # r \<Rightarrow> if c = CHR ''+'' then r else s)
      in 7 \<le> length body \<and> length body \<le> 20 \<and> list_all phone_char body)"

subsection \<open>Running a schema on a value\<close>

text \<open>The body of each rule: whether the value satisfies it.\<close>

definition positive_length :: "jsval \<Rightarrow> bool" where
  "positive_length v = (case js_length v of None \<Rightarrow> False | Some l \<Rightarrow> 0 < l)"

fun holds :: "check \<Rightarrow> jsval \<Rightarrow> bool" where
  "holds (MinLength n m) v = (case js_length v of None \<Rightarrow> True | Some l \<Rightarrow> n \<le> of_nat l)"
| "holds (MaxLength n m) v = (case js_length v of None \<Rightarrow> True | Some l \<Rightarrow> of_nat l \<le> n)"
| "holds (MinValue n m) v = (case v of Num r \<Rightarrow> n \<le> r | _ \<Rightarrow> True)"
| "holds (MaxValue n m) v = (case v of Num r \<Rightarrow> r \<le> n | _ \<Rightarrow> True)"
| "holds (Email m) v = (case v of Str s \<Rightarrow> zod_email s | _ \<Rightarrow> True)"
| "holds (PhoneRegex m) v = (case v of Str s \<Rightarrow> phone_regex s | _ \<Rightarrow> True)"
| "holds (OnOrAfter d m) v =
     (if truthy v then (case v of Str s \<Rightarrow> d \<le> s | _ \<Rightarrow> True) else True)"
| "holds (OnOrBefore d m) v =
     (if truthy v then (case v of Str s \<Rightarrow> s \<le> d | _ \<Rightarrow> True) else True)"
| "holds (IsTrue m) v = (v = Bool True)"
| "holds (IsTruthy m) v = truthy v"
| "holds (HasFiles m) v = (if truthy v then positive_length v else False)"
| "holds (HasLength m) v = positive_length v"
| "holds (FileCountAtMost n m) v =
     (if truthy v then (case js_length v of None \<Rightarrow> False | Some l \<Rightarrow> of_nat l \<le> n) else True)"
| "holds (FileSizesAtMost k m) v =
     (case v of Files fs \<Rightarrow> list_all (\<lambda>f. file_size f \<le> k * 1024) fs | _ \<Rightarrow> True)"

text \<open>What a failed rule reports: its own message, or the default of its kind.\<close>

fun report :: "check \<Rightarrow> issue" where
  "report (MinLength n m) = (case m of None \<Rightarrow> Too_small n | Some t \<Rightarrow> Msg t)"
| "report (MaxLength n m) = (case m of None \<Rightarrow> Too_big n | Some t \<Rightarrow> Msg t)"
| "report (MinValue n m) = (case m of None \<Rightarrow> Too_small n | Some t \<Rightarrow> Msg t)"
| "report (MaxValue n m) = (case m of None \<Rightarrow> Too_big n | Some t \<Rightarrow> Msg t)"
| "report (Email m) = Msg m"
| "report (PhoneRegex m) = Msg m"
| "report (OnOrAfter d m) = Msg m"
| "report (OnOrBefore d m) = Msg m"
| "report (IsTrue m) = Msg m"
| "report (IsTruthy m) = Msg m"
| "report (HasFiles m) = Msg m"
| "report (HasLength m) = Msg m"
| "report (FileCountAtMost n m) = Msg m"
| "report (FileSizesAtMost k m) = Msg m"

text \<open>
  The length rules decide for themselves when to run (on every value that has a length);
  every other rule is skipped once the type test has failed.
\<close>

fun runs :: "check \<Rightarrow> bool \<Rightarrow> jsval \<Rightarrow> bool" where
  "runs (MinLength n m) stopped v = (case js_length v of None \<Rightarrow> False | Some l \<Rightarrow> True)"
| "runs (MaxLength n m) stopped v = (case js_length v of None \<Rightarrow> False | Some l \<Rightarrow> True)"
| "runs c stopped v = (\<not> stopped)"

text \<open>The rules run in the order they were attached; each failure adds its issue.\<close>

fun run_checks :: "bool \<Rightarrow> check list \<Rightarrow> jsval \<Rightarrow> issue list" where
  "run_checks stopped [] v = []"
| "run_checks stopped (c # cs) v =
     (if runs c stopped v then (if holds c v then [] else [report c]) else [])
       @ run_checks stopped cs v"

text \<open>
  \<open>safeParse\<close> gives the issues of a value against a schema; the value passes when there
  are none. \<open>Number\<close> stands for JavaScript's conversion to a number, which
  \<open>z.coerce.number()\<close> applies first: the finite result, or \<open>None\<close> for \<open>NaN\<close> and the
  infinities, which the number schema rejects alike.
\<close>

fun parse_elems :: "(jsval \<Rightarrow> issue list) \<Rightarrow> nat \<Rightarrow> string list \<Rightarrow> issue list" where
  "parse_elems p i [] = []"
| "parse_elems p i (x # xs) = map (AtIndex i) (p (Str x)) @ parse_elems p (Suc i) xs"

fun safeParse :: "(jsval \<Rightarrow> rat option) \<Rightarrow> zschema \<Rightarrow> jsval \<Rightarrow> issue list" where
  "safeParse Number (ZString cs) v =
     (case v of Str s \<Rightarrow> run_checks False cs v
      | _ \<Rightarrow> Invalid_type ''string'' # run_checks True cs v)"
| "safeParse Number (ZNumber cs) v =
     (case v of Num r \<Rightarrow> run_checks False cs v
      | _ \<Rightarrow> Invalid_type ''number'' # run_checks True cs v)"
| "safeParse Number (ZCoerceNumber cs) v =
     (case Number v of Some r \<Rightarrow> run_checks False cs (Num r)
      | None \<Rightarrow> [Invalid_type ''number''])"
| "safeParse Number (ZBoolean cs) v =
     (case v of Bool b \<Rightarrow> run_checks False cs v
      | _ \<Rightarrow> Invalid_type ''boolean'' # run_checks True cs v)"
| "safeParse Number (ZArray e cs) v =
     (case v of
        StrList xs \<Rightarrow>
          (let es = parse_elems (safeParse Number e) 0 xs
           in es @ run_checks (aborted es) cs v)
      | _ \<Rightarrow> Invalid_type ''array'' # run_checks True cs v)"
| "safeParse Number (ZObject ps) v =
     (case v of
        MinMax a b \<Rightarrow>
          concat (map (\<lambda>p. map (AtKey (fst p)) (safeParse Number (snd p) (get_prop a b (fst p)))) ps)
      | _ \<Rightarrow> [Invalid_type ''object''])"
| "safeParse Number (ZAny cs) v = run_checks False cs v"
| "safeParse Number (ZLiteral s) v = (if v = Str s then [] else [Invalid_value])"
| "safeParse Number (ZOptional s) v = (if v = Undefined then [] else safeParse Number s v)"
| "safeParse Number (ZUnion a b) v =
     (let ia = safeParse Number a v; ib = safeParse Number b v
      in if ia = [] then [] else if ib = [] then []
         else if aborted ia then (if aborted ib then [Invalid_union ia ib] else ib)
         else (if aborted ib then ia else [Invalid_union ia ib]))"

definition passes :: "(jsval \<Rightarrow> rat option) \<Rightarrow> zschema \<Rightarrow> jsval \<Rightarrow> bool" where
  "passes Number s v = (safeParse Number s v = [])"

text \<open>
  The form library shows one message per field: that of the first issue, and for a failed
  union that of the first issue of its first alternative.
\<close>

fun shown :: "issue list \<Rightarrow> issue option" where
  "shown [] = None"
| "shown (Invalid_union (a # as) b # es) = Some a"
| "shown (e # es) = Some e"

section \<open>Field descriptors\<close>

text \<open>
  \<open>FieldValidation\<close> and \<open>ChecklistFieldInternal\<close> / \<open>FormFieldInternal\<close> of the
  \<open>types.ts\<close> files of the checklist builder and the form renderer, which list the same
  properties. An optional property is an option; \<open>None\<close> is \<open>undefined\<close>. The numbers of
  the rules are rationals: the code compares them and tests them for zero, nothing else.
  The type tag is the string the stored document holds, and the id may be missing, as the
  compilers test for both.
\<close>

record FieldValidation =
  minLength :: "rat option"
  maxLength :: "rat option"
  pattern :: "string option"
  patternMessage :: "string option"
  minValue :: "rat option"
  maxValue :: "rat option"
  minDate :: "string option"
  maxDate :: "string option"
  requiredMessage :: "string option"
  minSelections :: "rat option"
  maxSelections :: "rat option"
  maxFileSize :: "rat option"
  customRule :: "string option"

record FieldInternal =
  field_id :: "string option"
  field_type :: string
  label :: string
  placeholder :: "string option"
  tooltip :: "string option"
  required :: bool
  options :: "string list option"
  acceptedFileTypes :: "string list option"
  maxFiles :: "rat option"
  field_min :: "rat option"
  field_max :: "rat option"
  step :: "rat option"
  disableSpinners :: "bool option"
  validation :: "FieldValidation option"

definition no_validation :: FieldValidation where
  "no_validation =
     \<lparr>minLength = None, maxLength = None, pattern = None, patternMessage = None,
      minValue = None, maxValue = None, minDate = None, maxDate = None,
      requiredMessage = None, minSelections = None, maxSelections = None,
      maxFileSize = None, customRule = None\<rparr>"

text \<open>\<open>const v = field.validation || {}\<close>\<close>

definition rules :: "FieldInternal \<Rightarrow> FieldValidation" where
  "rules f = (case validation f of None \<Rightarrow> no_validation | Some v \<Rightarrow> v)"

text \<open>
  \<open>if (x) ...\<close> on an optional number adds the rule when the number is neither missing nor
  zero; \<open>if (x !== undefined) ...\<close> when it is not missing; on an optional string, when it is
  neither missing nor empty.
\<close>

definition if_truthy :: "rat option \<Rightarrow> (rat \<Rightarrow> check) \<Rightarrow> check list" where
  "if_truthy x c = (case x of None \<Rightarrow> [] | Some n \<Rightarrow> if n = 0 then [] else [c n])"

definition if_defined :: "rat option \<Rightarrow> (rat \<Rightarrow> check) \<Rightarrow> check list" where
  "if_defined x c = (case x of None \<Rightarrow> [] | Some n \<Rightarrow> [c n])"

definition if_nonempty :: "string option \<Rightarrow> (string \<Rightarrow> check) \<Rightarrow> check list" where
  "if_nonempty x c = (case x of None \<Rightarrow> [] | Some s \<Rightarrow> if s = [] then [] else [c s])"

text \<open>\<open>s.optional().or(z.literal(''))\<close>\<close>

definition optional_or_empty :: "zschema \<Rightarrow> zschema" where
  "optional_or_empty s = ZUnion (ZOptional s) (ZLiteral [])"

text \<open>\<open>v.minSelections ?? (field.required ? 1 : 0)\<close>\<close>

definition minSel :: "FieldInternal \<Rightarrow> rat" where
  "minSel f = (case minSelections (rules f) of Some n \<Rightarrow> n | None \<Rightarrow> if required f then 1 else 0)"

section \<open>The checklist compiler\<close>

text \<open>
  \<open>schemaBuilders\<close> of the checklist renderer's \<open>utils.ts\<close> (the one over
  \<open>ChecklistFieldInternal\<close>); the names carry \<open>_cl\<close>.
\<close>

definition getStringSchema_cl :: "FieldInternal \<Rightarrow> zschema" where
  "getStringSchema_cl f =
     (let v = rules f;
          cs = if_truthy (minLength v) (\<lambda>n. MinLength n (Some [S ''Minimum '', N n, S '' characters'']))
             @ if_truthy (maxLength v) (\<lambda>n. MaxLength n (Some [S ''Maximum '', N n, S '' characters'']))
      in if required f
         then ZString (cs @ [MinLength 1 (Some (or_default (requiredMessage v) [S ''This field is required'']))])
         else optional_or_empty (ZString cs))"

definition email_cl :: "FieldInternal \<Rightarrow> zschema" where
  "email_cl f =
     (let v = rules f;
          cs = [Email (or_default (patternMessage v) [S ''Invalid email address''])]
      in if required f
         then ZString (cs @ [MinLength 1 (Some (or_default (requiredMessage v) [S ''This field is required'']))])
         else optional_or_empty (ZString cs))"

definition phone_cl :: "FieldInternal \<Rightarrow> zschema" where
  "phone_cl f =
     (let v = rules f;
          cs = [PhoneRegex (or_default (patternMessage v) [S ''Invalid phone number''])]
      in if required f
         then ZString (cs @ [MinLength 1 (Some (or_default (requiredMessage v) [S ''This field is required'']))])
         else optional_or_empty (ZString cs))"

definition number_cl :: "FieldInternal \<Rightarrow> zschema" where
  "number_cl f =
     (let v = rules f;
          cs = if_defined (minValue v) (\<lambda>n. MinValue n (Some [S ''Minimum value is '', N n]))
             @ if_defined (maxValue v) (\<lambda>n. MaxValue n (Some [S ''Maximum value is '', N n]))
      in if required f then ZCoerceNumber cs else ZUnion (ZCoerceNumber cs) (ZLiteral []))"

definition date_cl :: "FieldInternal \<Rightarrow> zschema" where
  "date_cl f =
     (let v = rules f;
          cs = if_nonempty (minDate v) (\<lambda>d. OnOrAfter d [S (''Date must be on or after '' @ d)])
             @ if_nonempty (maxDate v) (\<lambda>d. OnOrBefore d [S (''Date must be on or before '' @ d)])
      in if required f
         then ZString (cs @ [MinLength 1 (Some (or_default (requiredMessage v) [S ''This field is required'']))])
         else optional_or_empty (ZString cs))"

definition checkbox_cl :: "FieldInternal \<Rightarrow> zschema" where
  "checkbox_cl f =
     (let v = rules f
      in if required f then ZBoolean [IsTrue (or_default (requiredMessage v) [S ''Required''])]
         else ZBoolean [])"

definition checklist_cl :: "FieldInternal \<Rightarrow> zschema" where
  "checklist_cl f =
     (let v = rules f; n = minSel f
      in ZArray (ZString [])
           ((if 0 < n
             then [MinLength n (Some (or_default (requiredMessage v)
                                        [S ''Select at least '', N n, S '' option(s)'']))]
             else [])
            @ if_truthy (maxSelections v)
                (\<lambda>m. MaxLength m (Some [S ''Select at most '', N m, S '' option(s)'']))))"

definition radio_cl :: "FieldInternal \<Rightarrow> zschema" where
  "radio_cl f =
     (let v = rules f
      in if required f
         then ZString [MinLength 1 (Some (or_default (requiredMessage v) [S ''Please select an option'']))]
         else optional_or_empty (ZString []))"

definition select_cl :: "FieldInternal \<Rightarrow> zschema" where
  "select_cl f = radio_cl f"

definition range_cl :: "FieldInternal \<Rightarrow> zschema" where
  "range_cl f = ZNumber []"

definition min_max_cl :: "FieldInternal \<Rightarrow> zschema" where
  "min_max_cl f = ZObject [(''min'', ZString []), (''max'', ZString [])]"

definition file_cl :: "FieldInternal \<Rightarrow> zschema" where
  "file_cl f =
     (let v = rules f
      in ZAny ((if required f
                then [HasFiles (or_default (requiredMessage v) [S ''This field is required''])]
                else [])
               @ if_truthy (maxFiles f)
                   (\<lambda>n. FileCountAtMost n [S ''Maximum '', N n, S '' file(s) allowed''])
               @ if_truthy (maxFileSize v)
                   (\<lambda>k. FileSizesAtMost k [S ''File exceeds '', N k, S '' KB limit''])))"

definition schemaBuilders_cl :: "(string \<times> (FieldInternal \<Rightarrow> zschema)) list" where
  "schemaBuilders_cl =
     [(''text'', getStringSchema_cl), (''textarea'', getStringSchema_cl),
      (''email'', email_cl), (''phone'', phone_cl), (''number'', number_cl),
      (''date'', date_cl), (''checkbox'', checkbox_cl), (''checklist'', checklist_cl),
      (''radio'', radio_cl), (''select'', select_cl), (''range'', range_cl),
      (''min_max'', min_max_cl), (''file'', file_cl)]"

section \<open>The form renderer's compiler\<close>

text \<open>
  \<open>schemaBuilders\<close> of the form renderer's \<open>utils.ts\<close> (the one over \<open>FormFieldInternal\<close>);
  the names carry \<open>_fr\<close>.
\<close>

definition getStringSchema_fr :: "FieldInternal \<Rightarrow> zschema" where
  "getStringSchema_fr f =
     (let v = rules f;
          cs = if_truthy (minLength v) (\<lambda>n. MinLength n (Some [S ''Minimum '', N n, S '' characters'']))
             @ if_truthy (maxLength v) (\<lambda>n. MaxLength n (Some [S ''Maximum '', N n, S '' characters'']))
      in if required f
         then ZString (cs @ [MinLength 1 (Some (or_default (requiredMessage v) [S ''This field is required.'']))])
         else optional_or_empty (ZString cs))"

definition email_fr :: "FieldInternal \<Rightarrow> zschema" where
  "email_fr f =
     (let v = rules f
      in if required f
         then ZString [MinLength 1 (Some (or_default (requiredMessage v) [S ''This field is required.''])),
                       Email (or_default (patternMessage v) [S ''Invalid email''])]
         else optional_or_empty (ZString [Email (or_default (patternMessage v) [S ''Invalid email''])]))"

definition phone_fr :: "FieldInternal \<Rightarrow> zschema" where
  "phone_fr f =
     (let v = rules f
      in if required f
         then ZString [MinLength 1 (Some (or_default (requiredMessage v) [S ''This field is required.''])),
                       PhoneRegex (or_default (patternMessage v) [S ''Invalid phone''])]
         else optional_or_empty (ZString [PhoneRegex (or_default (patternMessage v) [S ''Invalid phone''])]))"

definition number_fr :: "FieldInternal \<Rightarrow> zschema" where
  "number_fr f =
     (let v = rules f;
          cs = if_defined (minValue v) (\<lambda>n. MinValue n None)
             @ if_defined (maxValue v) (\<lambda>n. MaxValue n None)
      in if required f then ZCoerceNumber cs else ZUnion (ZCoerceNumber cs) (ZLiteral []))"

definition date_fr :: "FieldInternal \<Rightarrow> zschema" where
  "date_fr f =
     (let v = rules f
      in if required f
         then ZString [MinLength 1 (Some (or_default (requiredMessage v) [S ''This field is required.'']))]
         else optional_or_empty (ZString []))"

definition checkbox_fr :: "FieldInternal \<Rightarrow> zschema" where
  "checkbox_fr f =
     (let v = rules f
      in if required f
         then ZBoolean [IsTruthy (or_default (requiredMessage v) [S ''This field is required.''])]
         else ZBoolean [])"

definition checklist_fr :: "FieldInternal \<Rightarrow> zschema" where
  "checklist_fr f =
     (let v = rules f; n = minSel f
      in ZArray (ZString [])
           ((if 0 < n then [MinLength n (Some [S ''Select at least '', N n])] else [])
            @ if_truthy (maxSelections v) (\<lambda>m. MaxLength m None)))"

definition radio_fr :: "FieldInternal \<Rightarrow> zschema" where
  "radio_fr f =
     (let v = rules f
      in if required f
         then ZString [MinLength 1 (Some (or_default (requiredMessage v) [S ''Select an option'']))]
         else ZOptional (ZString []))"

definition select_fr :: "FieldInternal \<Rightarrow> zschema" where
  "select_fr f = radio_fr f"

definition range_fr :: "FieldInternal \<Rightarrow> zschema" where
  "range_fr f = ZNumber []"

definition min_max_fr :: "FieldInternal \<Rightarrow> zschema" where
  "min_max_fr f = ZObject [(''min'', ZString []), (''max'', ZString [])]"

definition file_fr :: "FieldInternal \<Rightarrow> zschema" where
  "file_fr f =
     (let v = rules f
      in ZAny (if required f
               then [HasLength (or_default (requiredMessage v) [S ''This field is required.''])]
               else []))"

definition schemaBuilders_fr :: "(string \<times> (FieldInternal \<Rightarrow> zschema)) list" where
  "schemaBuilders_fr =
     [(''text'', getStringSchema_fr), (''textarea'', getStringSchema_fr),
      (''email'', email_fr), (''phone'', phone_fr), (''number'', number_fr),
      (''date'', date_fr), (''checkbox'', checkbox_fr), (''checklist'', checklist_fr),
      (''radio'', radio_fr), (''select'', select_fr), (''range'', range_fr),
      (''min_max'', min_max_fr), (''file'', file_fr)]"

section \<open>The form viewer's compiler\<close>

text \<open>
  The \<open>switch (field.type)\<close> of \<open>buildZodSchema\<close> in \<open>FormViewer.tsx\<close>; the names carry
  \<open>_fv\<close>. The \<open>default\<close> branch takes every tag no \<open>case\<close> names.
\<close>

definition fieldSchema_fv :: "FieldInternal \<Rightarrow> zschema" where
  "fieldSchema_fv f =
     (let v = rules f; t = field_type f in
      if t = ''text'' \<or> t = ''textarea'' then
        (let cs = (case minLength v of None \<Rightarrow> []
                   | Some n \<Rightarrow> if 0 \<le> n
                       then [MinLength n (Some [S ''Minimum '', N n, S '' characters required''])]
                       else [])
                @ (case maxLength v of None \<Rightarrow> []
                   | Some n \<Rightarrow> if 0 \<le> n
                       then [MaxLength n (Some [S ''Maximum '', N n, S '' characters allowed''])]
                       else [])
         in if required f
            then ZString (cs @ [MinLength 1 (Some (or_default (requiredMessage v) [S ''This field is required'']))])
            else optional_or_empty (ZString cs))
      else if t = ''email'' then
        (let cs = [Email (or_default (patternMessage v) [S ''Invalid email address''])]
         in if required f
            then ZString (cs @ [MinLength 1 (Some (or_default (requiredMessage v) [S ''This field is required'']))])
            else optional_or_empty (ZString cs))
      else if t = ''phone'' then
        (let cs = [PhoneRegex (or_default (patternMessage v) [S ''Invalid phone number''])]
         in if required f
            then ZString (cs @ [MinLength 1 (Some (or_default (requiredMessage v) [S ''This field is required'']))])
            else optional_or_empty (ZString cs))
      else if t = ''number'' then
        (let cs = if_defined (minValue v) (\<lambda>n. MinValue n (Some [S ''Minimum value is '', N n]))
                @ if_defined (maxValue v) (\<lambda>n. MaxValue n (Some [S ''Maximum value is '', N n]))
         in if required f then ZCoerceNumber cs else ZUnion (ZCoerceNumber cs) (ZLiteral []))
      else if t = ''date'' then
        (let cs = if_nonempty (minDate v) (\<lambda>d. OnOrAfter d [S (''Date must be on or after '' @ d)])
                @ if_nonempty (maxDate v) (\<lambda>d. OnOrBefore d [S (''Date must be on or before '' @ d)])
         in if required f
            then ZString (cs @ [MinLength 1 (Some (or_default (requiredMessage v) [S ''This field is required'']))])
            else optional_or_empty (ZString cs))
      else if t = ''checkbox'' then
        (if required f then ZBoolean [IsTrue (or_default (requiredMessage v) [S ''Required''])]
         else ZBoolean [])
      else if t = ''checklist'' then
        (let n = minSel f
         in ZArray (ZString [])
              ((if 0 < n
                then [MinLength n (Some (or_default (requiredMessage v)
                                           [S ''Select at least '', N n, S '' option(s)'']))]
                else [])
               @ if_defined (maxSelections v)
                   (\<lambda>m. MaxLength m (Some [S ''Select at most '', N m, S '' option(s)'']))))
      else if t = ''radio'' \<or> t = ''select'' then
        (if required f
         then ZString [MinLength 1 (Some (or_default (requiredMessage v) [S ''Please select an option'']))]
         else optional_or_empty (ZString []))
      else if t = ''range'' then ZNumber []
      else if t = ''min_max'' then ZObject [(''min'', ZString []), (''max'', ZString [])]
      else if t = ''file'' then ZAny []
      else ZAny [])"

section \<open>Objects used as tables\<close>

text \<open>
  \<open>schemaBuilders\<close>, \<open>defaults\<close> and \<open>shape\<close> are plain objects, so a key is looked up
  among the object's own properties and then on \<open>Object.prototype\<close>. Reading a key the
  table does not define gives \<open>undefined\<close> only when the prototype has no member of that
  name.
\<close>

definition object_prototype_members :: "string list" where
  "object_prototype_members =
     [''constructor'', ''__defineGetter__'', ''__defineSetter__'', ''hasOwnProperty'',
      ''__lookupGetter__'', ''__lookupSetter__'', ''isPrototypeOf'', ''propertyIsEnumerable'',
      ''toString'', ''valueOf'', ''__proto__'', ''toLocaleString'']"

datatype 'a looked_up = Own 'a | Inherited string | Missing

definition lookup :: "(string \<times> 'a) list \<Rightarrow> string \<Rightarrow> 'a looked_up" where
  "lookup table k =
     (case map_of table k of
        Some x \<Rightarrow> Own x
      | None \<Rightarrow> if k \<in> set object_prototype_members then Inherited k else Missing)"

text \<open>
  Writing \<open>shape[k] = x\<close>: the key \<open>__proto__\<close> is the prototype's setter and adds no
  property; every other key becomes, or overwrites, an own property.
\<close>

definition set_property :: "(string \<rightharpoonup> 'a) \<Rightarrow> string \<Rightarrow> 'a \<Rightarrow> (string \<rightharpoonup> 'a)" where
  "set_property obj k x = (if k = ''__proto__'' then obj else obj(k \<mapsto> x))"

text \<open>
  An entry of the compiled shape is a validator, unless the builder that was called was a
  member of the prototype.
\<close>

datatype entry = Validator zschema | NotAValidator

datatype exception = TypeError

text \<open>
  \<open>(schemaBuilders[field.type] || (() => z.any()))(field)\<close>. A table entry is called on the
  field; a missing one gives \<open>z.any()\<close>. An inherited member is truthy, so it is what gets
  called, as a plain function (\<open>this\<close> is \<open>undefined\<close> in module code): \<open>__proto__\<close> is the
  prototype object and not a function; \<open>constructor\<close> returns the field and \<open>toString\<close> a
  string; the other members convert \<open>this\<close> to an object first. Each of these either
  throws a TypeError or returns something that is not a schema.
\<close>

definition call_builder :: "(string \<times> (FieldInternal \<Rightarrow> zschema)) list \<Rightarrow> FieldInternal \<Rightarrow> exception + entry" where
  "call_builder table f =
     (case lookup table (field_type f) of
        Own b \<Rightarrow> Inr (Validator (b f))
      | Missing \<Rightarrow> Inr (Validator (ZAny []))
      | Inherited m \<Rightarrow>
          if m = ''constructor'' \<or> m = ''toString'' then Inr NotAValidator else Inl TypeError)"

text \<open>
  \<open>fields.forEach(...)\<close> of \<open>buildZodSchema\<close>: a field whose id is missing or empty is
  skipped; an exception ends the loop and the compilation. The result stands for
  \<open>z.object(shape)\<close>, which keeps the own properties of \<open>shape\<close>.
\<close>

fun build :: "(string \<times> (FieldInternal \<Rightarrow> zschema)) list \<Rightarrow> (string \<rightharpoonup> entry) \<Rightarrow> FieldInternal list
    \<Rightarrow> exception + (string \<rightharpoonup> entry)" where
  "build table shape [] = Inr shape"
| "build table shape (f # fs) =
     (case field_id f of
        None \<Rightarrow> build table shape fs
      | Some k \<Rightarrow>
          if k = [] then build table shape fs
          else (case call_builder table f of
                  Inl e \<Rightarrow> Inl e
                | Inr x \<Rightarrow> build table (set_property shape k x) fs))"

definition buildZodSchema_cl :: "FieldInternal list \<Rightarrow> exception + (string \<rightharpoonup> entry)" where
  "buildZodSchema_cl fs = build schemaBuilders_cl Map.empty fs"

definition buildZodSchema_fr :: "FieldInternal list \<Rightarrow> exception + (string \<rightharpoonup> entry)" where
  "buildZodSchema_fr fs = build schemaBuilders_fr Map.empty fs"

fun build_fv :: "(string \<rightharpoonup> entry) \<Rightarrow> FieldInternal list \<Rightarrow> (string \<rightharpoonup> entry)" where
  "build_fv shape [] = shape"
| "build_fv shape (f # fs) =
     (case field_id f of
        None \<Rightarrow> build_fv shape fs
      | Some k \<Rightarrow>
          if k = [] then build_fv shape fs
          else build_fv (set_property shape k (Validator (fieldSchema_fv f))) fs)"

definition buildZodSchema_fv :: "FieldInternal list \<Rightarrow> (string \<rightharpoonup> entry)" where
  "buildZodSchema_fv fs = build_fv Map.empty fs"

text \<open>
  Validation of a submission looks at the keys of the shape only: the issues of field
  \<open>k\<close> are those of its validator on the live value under \<open>k\<close> (\<open>undefined\<close> when there is
  none), a key without an entry has no issues, and an entry that is not a validator makes
  the library throw.
\<close>

datatype invalid_element = Invalid_element

definition validate_field ::
    "(jsval \<Rightarrow> rat option) \<Rightarrow> (string \<rightharpoonup> entry) \<Rightarrow> (string \<Rightarrow> jsval) \<Rightarrow> string \<Rightarrow> invalid_element + issue list" where
  "validate_field Number shape values k =
     (case shape k of
        None \<Rightarrow> Inr []
      | Some NotAValidator \<Rightarrow> Inl Invalid_element
      | Some (Validator s) \<Rightarrow> Inr (safeParse Number s (values k)))"

section \<open>Default values\<close>

text \<open>
  \<open>getDefaultValue\<close> of both \<open>utils.ts\<close> files (the same text): \<open>defaults[type] ?? ''\<close>. The
  result is a live value, or the member of the prototype that the tag names.
\<close>

datatype default_value = Value jsval | Builtin string

definition defaults :: "(string \<times> jsval) list" where
  "defaults =
     [(''checkbox'', Bool False), (''checklist'', StrList []), (''range'', Num 0),
      (''min_max'', MinMax [] [])]"

definition getDefaultValue :: "string \<Rightarrow> default_value" where
  "getDefaultValue t =
     (case lookup defaults t of
        Own v \<Rightarrow> Value v
      | Inherited m \<Rightarrow> Builtin m
      | Missing \<Rightarrow> Value (Str []))"

text \<open>
  The checklist renderer: \<open>if (field.id) values[field.id] = getDefaultValue(field.type)\<close>.
\<close>

fun defaultValues_cl :: "(string \<rightharpoonup> default_value) \<Rightarrow> FieldInternal list \<Rightarrow> (string \<rightharpoonup> default_value)" where
  "defaultValues_cl values [] = values"
| "defaultValues_cl values (f # fs) =
     (case field_id f of
        None \<Rightarrow> defaultValues_cl values fs
      | Some k \<Rightarrow>
          if k = [] then defaultValues_cl values fs
          else defaultValues_cl (set_property values k (getDefaultValue (field_type f))) fs)"

text \<open>
  The form renderer: \<open>Object.fromEntries(fields.map((f) => [f.id, getDefaultValue(f.type)]))\<close>.
  Every field gives an entry; a missing id is the key \<open>undefined\<close>, and every key, also
  \<open>__proto__\<close>, becomes an own property.
\<close>

definition property_key :: "string option \<Rightarrow> string" where
  "property_key k = (case k of None \<Rightarrow> ''undefined'' | Some s \<Rightarrow> s)"

fun fromEntries :: "(string \<rightharpoonup> 'a) \<Rightarrow> (string \<times> 'a) list \<Rightarrow> (string \<rightharpoonup> 'a)" where
  "fromEntries obj [] = obj"
| "fromEntries obj (e # es) = fromEntries (obj(fst e \<mapsto> snd e)) es"

definition defaultValues_fr :: "FieldInternal list \<Rightarrow> (string \<rightharpoonup> default_value)" where
  "defaultValues_fr fs =
     fromEntries Map.empty (map (\<lambda>f. (property_key (field_id f), getDefaultValue (field_type f))) fs)"

text \<open>The form viewer computes the default in place, from the field.\<close>

definition defaultValue_fv :: "FieldInternal \<Rightarrow> jsval" where
  "defaultValue_fv f =
     (if field_type f = ''checkbox'' then Bool False
      else if field_type f = ''checklist'' then StrList []
      else if field_type f = ''range'' then (case field_min f of None \<Rightarrow> Num 0 | Some m \<Rightarrow> Num m)
      else if field_type f = ''min_max'' then MinMax [] []
      else Str [])"

fun defaultValues_fv :: "(string \<rightharpoonup> jsval) \<Rightarrow> FieldInternal list \<Rightarrow> (string \<rightharpoonup> jsval)" where
  "defaultValues_fv values [] = values"
| "defaultValues_fv values (f # fs) =
     (case field_id f of
        None \<Rightarrow> defaultValues_fv values fs
      | Some k \<Rightarrow>
          if k = [] then defaultValues_fv values fs
          else defaultValues_fv (set_property values k (defaultValue_fv f)) fs)"

section \<open>The schema stores\<close>

text \<open>
  \<open>FormSchema\<close> and \<open>ChecklistSchema\<close> have the same shape. Each store keeps its documents
  under one key of the browser's local storage, as the JSON text of the whole list.
\<close>

record Schema =
  schema_id :: string
  schema_name :: string
  description :: "string option"
  schema_fields :: "FieldInternal list"

text \<open>
  A JSON value, as \<open>JSON.parse\<close> returns it; an object is the list of its properties,
  each name once. Numbers are the finite ones.
\<close>

datatype json =
    JNull
  | JBool bool
  | JNum rat
  | JStr string
  | JArr "json list"
  | JObj "(string \<times> json) list"

text \<open>
  What \<open>JSON.stringify\<close> writes for a document: its properties under the names of the
  source; a property that is missing or \<open>undefined\<close> is left out.
\<close>

fun entries :: "(string \<times> json option) list \<Rightarrow> (string \<times> json) list" where
  "entries [] = []"
| "entries ((k, None) # r) = entries r"
| "entries ((k, Some v) # r) = (k, v) # entries r"

definition strings_json :: "string list \<Rightarrow> json" where
  "strings_json xs = JArr (map JStr xs)"

definition validation_json :: "FieldValidation \<Rightarrow> json" where
  "validation_json v =
     JObj (entries
       [(''minLength'', map_option JNum (minLength v)),
        (''maxLength'', map_option JNum (maxLength v)),
        (''pattern'', map_option JStr (pattern v)),
        (''patternMessage'', map_option JStr (patternMessage v)),
        (''minValue'', map_option JNum (minValue v)),
        (''maxValue'', map_option JNum (maxValue v)),
        (''minDate'', map_option JStr (minDate v)),
        (''maxDate'', map_option JStr (maxDate v)),
        (''requiredMessage'', map_option JStr (requiredMessage v)),
        (''minSelections'', map_option JNum (minSelections v)),
        (''maxSelections'', map_option JNum (maxSelections v)),
        (''maxFileSize'', map_option JNum (maxFileSize v)),
        (''customRule'', map_option JStr (customRule v))])"

definition field_json :: "FieldInternal \<Rightarrow> json" where
  "field_json f =
     JObj (entries
       [(''id'', map_option JStr (field_id f)),
        (''type'', Some (JStr (field_type f))),
        (''label'', Some (JStr (label f))),
        (''placeholder'', map_option JStr (placeholder f)),
        (''tooltip'', map_option JStr (tooltip f)),
        (''required'', Some (JBool (required f))),
        (''options'', map_option strings_json (options f)),
        (''acceptedFileTypes'', map_option strings_json (acceptedFileTypes f)),
        (''maxFiles'', map_option JNum (maxFiles f)),
        (''min'', map_option JNum (field_min f)),
        (''max'', map_option JNum (field_max f)),
        (''step'', map_option JNum (step f)),
        (''disableSpinners'', map_option JBool (disableSpinners f)),
        (''validation'', map_option validation_json (validation f))])"

definition schema_json :: "Schema \<Rightarrow> json" where
  "schema_json d =
     JObj (entries
       [(''id'', Some (JStr (schema_id d))),
        (''name'', Some (JStr (schema_name d))),
        (''description'', map_option JStr (description d)),
        (''fields'', Some (JArr (map field_json (schema_fields d))))])"

text \<open>
  Reading a property of a value that is not \<open>null\<close>: an object gives what it holds under
  the name, every other value gives \<open>undefined\<close> for the names read here.
\<close>

definition json_prop :: "json \<Rightarrow> string \<Rightarrow> json option" where
  "json_prop j k = (case j of JObj kv \<Rightarrow> map_of kv k | _ \<Rightarrow> None)"

definition str_prop :: "json \<Rightarrow> string \<Rightarrow> string option" where
  "str_prop j k = (case json_prop j k of Some (JStr s) \<Rightarrow> Some s | _ \<Rightarrow> None)"

definition num_prop :: "json \<Rightarrow> string \<Rightarrow> rat option" where
  "num_prop j k = (case json_prop j k of Some (JNum r) \<Rightarrow> Some r | _ \<Rightarrow> None)"

definition bool_prop :: "json \<Rightarrow> string \<Rightarrow> bool option" where
  "bool_prop j k = (case json_prop j k of Some (JBool b) \<Rightarrow> Some b | _ \<Rightarrow> None)"

fun string_of_json :: "json \<Rightarrow> string option" where
  "string_of_json (JStr s) = Some s"
| "string_of_json j = None"

definition strings_prop :: "json \<Rightarrow> string \<Rightarrow> string list option" where
  "strings_prop j k =
     (case json_prop j k of Some (JArr xs) \<Rightarrow> those (map string_of_json xs) | _ \<Rightarrow> None)"

text \<open>
  The document a JSON value holds, read property by property; \<open>None\<close> when a property
  that every document has is missing or of another type.
\<close>

definition validation_of_json :: "json \<Rightarrow> FieldValidation" where
  "validation_of_json j =
     \<lparr>minLength = num_prop j ''minLength'', maxLength = num_prop j ''maxLength'',
      pattern = str_prop j ''pattern'', patternMessage = str_prop j ''patternMessage'',
      minValue = num_prop j ''minValue'', maxValue = num_prop j ''maxValue'',
      minDate = str_prop j ''minDate'', maxDate = str_prop j ''maxDate'',
      requiredMessage = str_prop j ''requiredMessage'',
      minSelections = num_prop j ''minSelections'', maxSelections = num_prop j ''maxSelections'',
      maxFileSize = num_prop j ''maxFileSize'', customRule = str_prop j ''customRule''\<rparr>"

definition field_of_json :: "json \<Rightarrow> FieldInternal option" where
  "field_of_json j =
     (case str_prop j ''type'' of None \<Rightarrow> None | Some t \<Rightarrow>
      case str_prop j ''label'' of None \<Rightarrow> None | Some l \<Rightarrow>
      case bool_prop j ''required'' of None \<Rightarrow> None | Some r \<Rightarrow>
        Some \<lparr>field_id = str_prop j ''id'', field_type = t, label = l,
              placeholder = str_prop j ''placeholder'', tooltip = str_prop j ''tooltip'',
              required = r, options = strings_prop j ''options'',
              acceptedFileTypes = strings_prop j ''acceptedFileTypes'',
              maxFiles = num_prop j ''maxFiles'',
              field_min = num_prop j ''min'', field_max = num_prop j ''max'',
              step = num_prop j ''step'', disableSpinners = bool_prop j ''disableSpinners'',
              validation = map_option validation_of_json (json_prop j ''validation'')\<rparr>)"

definition schema_of_json :: "json \<Rightarrow> Schema option" where
  "schema_of_json j =
     (case str_prop j ''id'' of None \<Rightarrow> None | Some i \<Rightarrow>
      case str_prop j ''name'' of None \<Rightarrow> None | Some n \<Rightarrow>
      case json_prop j ''fields'' of
        Some (JArr fs) \<Rightarrow>
          (case those (map field_of_json fs) of None \<Rightarrow> None
           | Some fl \<Rightarrow> Some \<lparr>schema_id = i, schema_name = n,
                              description = str_prop j ''description'', schema_fields = fl\<rparr>)
      | _ \<Rightarrow> None)"

text \<open>
  What a key of the local storage holds: nothing, the empty string, text that
  \<open>JSON.parse\<close> rejects, or text that it reads as a JSON value, of any shape. Writing
  \<open>JSON.stringify(x)\<close> stores text that is read back as \<open>x\<close>. The storage accepts every
  write.
\<close>

datatype blob = NoItem | EmptyString | Unparsable | Parsed json

record browser =
  localStorage :: "string \<Rightarrow> blob"
  console :: "string list"

definition STORAGE_KEY_forms :: string where
  "STORAGE_KEY_forms = ''calendar_app_forms''"

definition STORAGE_KEY_checklists :: string where
  "STORAGE_KEY_checklists = ''calendar_app_checklists''"

text \<open>
  The body of \<open>getForms\<close> and of \<open>getChecklists\<close>:
  \<open>try { stored = getItem(KEY); return stored ? JSON.parse(stored) : [] }
    catch (error) { console.error(msg, error); return [] }\<close>.
  What was parsed is returned as it is, a list or not.
\<close>

definition load :: "string \<Rightarrow> string \<Rightarrow> browser \<Rightarrow> json \<times> browser" where
  "load key msg b =
     (case localStorage b key of
        NoItem \<Rightarrow> (JArr [], b)
      | EmptyString \<Rightarrow> (JArr [], b)
      | Unparsable \<Rightarrow> (JArr [], b\<lparr>console := console b @ [msg]\<rparr>)
      | Parsed j \<Rightarrow> (j, b))"

definition getForms :: "browser \<Rightarrow> json \<times> browser" where
  "getForms b = load STORAGE_KEY_forms ''Failed to load forms'' b"

definition getChecklists :: "browser \<Rightarrow> json \<times> browser" where
  "getChecklists b = load STORAGE_KEY_checklists ''Failed to load checklists'' b"

text \<open>
  The callbacks \<open>f => f.id === id\<close> and \<open>f => f.id !== id\<close>: reading \<open>id\<close> of \<open>null\<close>
  throws; on any other value the test is whether \<open>id\<close> is that string.
\<close>

definition has_id :: "string \<Rightarrow> json \<Rightarrow> bool" where
  "has_id i e = (json_prop e ''id'' = Some (JStr i))"

definition id_is :: "string \<Rightarrow> json \<Rightarrow> exception + bool" where
  "id_is i e = (if e = JNull then Inl TypeError else Inr (has_id i e))"

definition id_is_not :: "string \<Rightarrow> json \<Rightarrow> exception + bool" where
  "id_is_not i e = (if e = JNull then Inl TypeError else Inr (\<not> has_id i e))"

text \<open>
  \<open>xs.findIndex(p)\<close>, \<open>xs.find(p)\<close> and \<open>xs.filter(p)\<close> with a callback that may throw;
  \<open>None\<close> is the \<open>-1\<close> of \<open>findIndex\<close> and the \<open>undefined\<close> of \<open>find\<close>.
\<close>

fun findIndex :: "('a \<Rightarrow> exception + bool) \<Rightarrow> 'a list \<Rightarrow> exception + nat option" where
  "findIndex p [] = Inr None"
| "findIndex p (x # xs) =
     (case p x of
        Inl e \<Rightarrow> Inl e
      | Inr True \<Rightarrow> Inr (Some 0)
      | Inr False \<Rightarrow>
          (case findIndex p xs of Inl e \<Rightarrow> Inl e | Inr r \<Rightarrow> Inr (map_option Suc r)))"

fun find_js :: "('a \<Rightarrow> exception + bool) \<Rightarrow> 'a list \<Rightarrow> exception + 'a option" where
  "find_js p [] = Inr None"
| "find_js p (x # xs) =
     (case p x of
        Inl e \<Rightarrow> Inl e
      | Inr True \<Rightarrow> Inr (Some x)
      | Inr False \<Rightarrow> find_js p xs)"

fun filter_js :: "('a \<Rightarrow> exception + bool) \<Rightarrow> 'a list \<Rightarrow> exception + 'a list" where
  "filter_js p [] = Inr []"
| "filter_js p (x # xs) =
     (case p x of
        Inl e \<Rightarrow> Inl e
      | Inr keep \<Rightarrow>
          (case filter_js p xs of
             Inl e \<Rightarrow> Inl e
           | Inr r \<Rightarrow> Inr (if keep then x # r else r)))"

text \<open>
  \<open>getForm\<close> and \<open>getChecklist\<close>: \<open>find\<close> on what was loaded. A value that is not an array
  has no \<open>find\<close>, and the call throws.
\<close>

definition find_by_id :: "string \<Rightarrow> json \<Rightarrow> exception + json option" where
  "find_by_id i loaded = (case loaded of JArr es \<Rightarrow> find_js (id_is i) es | _ \<Rightarrow> Inl TypeError)"

definition getForm :: "string \<Rightarrow> browser \<Rightarrow> (exception + json option) \<times> browser" where
  "getForm i b = (case getForms b of (forms, b') \<Rightarrow> (find_by_id i forms, b'))"

definition getChecklist :: "string \<Rightarrow> browser \<Rightarrow> (exception + json option) \<times> browser" where
  "getChecklist i b = (case getChecklists b of (cs, b') \<Rightarrow> (find_by_id i cs, b'))"

text \<open>
  \<open>saveForm\<close> and \<open>saveChecklist\<close>: replace at the index found, or push; then write the
  whole list back. Nothing is written when \<open>findIndex\<close> throws.
\<close>

definition put :: "Schema \<Rightarrow> json \<Rightarrow> exception + json" where
  "put d loaded =
     (case loaded of
        JArr es \<Rightarrow>
          (case findIndex (id_is (schema_id d)) es of
             Inl e \<Rightarrow> Inl e
           | Inr (Some n) \<Rightarrow> Inr (JArr (es[n := schema_json d]))
           | Inr None \<Rightarrow> Inr (JArr (es @ [schema_json d])))
      | _ \<Rightarrow> Inl TypeError)"

definition setItem :: "string \<Rightarrow> blob \<Rightarrow> browser \<Rightarrow> browser" where
  "setItem key x b = b\<lparr>localStorage := (localStorage b)(key := x)\<rparr>"

definition saveForm :: "Schema \<Rightarrow> browser \<Rightarrow> exception + browser" where
  "saveForm form b =
     (case getForms b of (forms, b') \<Rightarrow>
        (case put form forms of
           Inl e \<Rightarrow> Inl e
         | Inr forms' \<Rightarrow> Inr (setItem STORAGE_KEY_forms (Parsed forms') b')))"

definition saveChecklist :: "Schema \<Rightarrow> browser \<Rightarrow> exception + browser" where
  "saveChecklist checklist b =
     (case getChecklists b of (cs, b') \<Rightarrow>
        (case put checklist cs of
           Inl e \<Rightarrow> Inl e
         | Inr cs' \<Rightarrow> Inr (setItem STORAGE_KEY_checklists (Parsed cs') b')))"

definition remove :: "string \<Rightarrow> json \<Rightarrow> exception + json" where
  "remove i loaded =
     (case loaded of
        JArr es \<Rightarrow> (case filter_js (id_is_not i) es of Inl e \<Rightarrow> Inl e | Inr r \<Rightarrow> Inr (JArr r))
      | _ \<Rightarrow> Inl TypeError)"

definition deleteForm :: "string \<Rightarrow> browser \<Rightarrow> exception + browser" where
  "deleteForm i b =
     (case getForms b of (forms, b') \<Rightarrow>
        (case remove i forms of
           Inl e \<Rightarrow> Inl e
         | Inr forms' \<Rightarrow> Inr (setItem STORAGE_KEY_forms (Parsed forms') b')))"

definition deleteChecklist :: "string \<Rightarrow> browser \<Rightarrow> exception + browser" where
  "deleteChecklist i b =
     (case getChecklists b of (cs, b') \<Rightarrow>
        (case remove i cs of
           Inl e \<Rightarrow> Inl e
         | Inr cs' \<Rightarrow> Inr (setItem STORAGE_KEY_checklists (Parsed cs') b')))"

definition elements :: "json \<Rightarrow> json list" where
  "elements j = (case j of JArr es \<Rightarrow> es | _ \<Rightarrow> [])"

text \<open>
  The prior contents of a key on which saving the id \<open>i\<close> returns: anything but parsed
  text, or an array with no \<open>null\<close> before its first element of that id.
\<close>

definition saves :: "string \<Rightarrow> blob \<Rightarrow> bool" where
  "saves i x =
     (case x of
        Parsed j \<Rightarrow>
          (case j of
             JArr es \<Rightarrow> list_all (\<lambda>e. e \<noteq> JNull) (takeWhile (\<lambda>e. \<not> has_id i e) es)
           | _ \<Rightarrow> False)
      | _ \<Rightarrow> True)"

text \<open>
  What replacing by id means: the elements before the first one of that id stay, the
  document takes its place, the elements after it stay; with no such element the document
  comes last.
\<close>

definition replaced :: "Schema \<Rightarrow> json list \<Rightarrow> json list" where
  "replaced d es =
     takeWhile (\<lambda>e. \<not> has_id (schema_id d) e) es @ [schema_json d]
       @ drop 1 (dropWhile (\<lambda>e. \<not> has_id (schema_id d) e) es)"

section \<open>The file inputs\<close>

text \<open>
  \<open>FileUpload\<close> of the two renderers. The state is the field's current selection
  (\<open>formField.value\<close>, a file list or \<open>null\<close>) and the messages shown to the user so far;
  \<open>formField.onChange\<close> replaces the selection.
\<close>

record upload =
  selection :: "File list option"
  messages :: "message list"

text \<open>\<open>existing?.length || 0\<close> and \<open>if (existing) Array.from(existing)\<close>\<close>

definition count :: "File list option \<Rightarrow> nat" where
  "count existing = (case existing of None \<Rightarrow> 0 | Some fs \<Rightarrow> length fs)"

definition files_of :: "File list option \<Rightarrow> File list" where
  "files_of existing = (case existing of None \<Rightarrow> [] | Some fs \<Rightarrow> fs)"

text \<open>
  The form renderer's \<open>addFiles\<close>. \<open>field.maxFiles && n > field.maxFiles\<close> is false when
  \<open>maxFiles\<close> is missing or zero.
\<close>

definition addFiles_fr :: "FieldInternal \<Rightarrow> File list option \<Rightarrow> upload \<Rightarrow> upload" where
  "addFiles_fr field newFiles u =
     (case newFiles of
        None \<Rightarrow> u
      | Some new \<Rightarrow>
          if new = [] then u
          else
            (let existing = selection u;
                 added = u\<lparr>selection := Some (files_of existing @ new)\<rparr>
             in case maxFiles field of
                  None \<Rightarrow> added
                | Some m \<Rightarrow>
                    if m = 0 then added
                    else if m < of_nat (count existing + length new)
                    then u\<lparr>messages := messages u @ [[S ''Maximum '', N m, S '' file(s) allowed'']]\<rparr>
                    else added))"

text \<open>
  The checklist renderer filters the new files by the accepted types first.
  \<open>toLowerCase\<close> and \<open>trim\<close> are given on the 8-bit characters.
\<close>

definition toLowerCase :: "string \<Rightarrow> string" where
  "toLowerCase s =
     map (\<lambda>c. let n = (of_char c :: nat)
              in if (65 \<le> n \<and> n \<le> 90) \<or> (192 \<le> n \<and> n \<le> 214) \<or> (216 \<le> n \<and> n \<le> 222)
                 then char_of (n + 32) else c) s"

definition trim :: "string \<Rightarrow> string" where
  "trim s = rev (dropWhile is_space (rev (dropWhile is_space s)))"

definition startsWith :: "string \<Rightarrow> string \<Rightarrow> bool" where
  "startsWith s p = (take (length p) s = p)"

definition endsWith :: "string \<Rightarrow> string \<Rightarrow> bool" where
  "endsWith s p = (length p \<le> length s \<and> drop (length s - length p) s = p)"

text \<open>\<open>type.split('/')[0]\<close> is the text before the first slash.\<close>

definition isFileAccepted :: "FieldInternal \<Rightarrow> File \<Rightarrow> bool" where
  "isFileAccepted field file =
     (let acceptedTypes = (case acceptedFileTypes field of None \<Rightarrow> [] | Some ts \<Rightarrow> ts)
      in if acceptedTypes = [] then True
         else list_ex
           (\<lambda>t. if endsWith t ''/*''
                then startsWith (file_type file) (takeWhile (\<lambda>c. c \<noteq> CHR ''/'') t @ ''/'')
                else if CHR '','' \<in> set t
                then list_ex (\<lambda>x. endsWith (toLowerCase (file_name file)) (toLowerCase (trim x)))
                       (split_on CHR '','' t)
                else if startsWith t ''.''
                then endsWith (toLowerCase (file_name file)) (toLowerCase t)
                else file_type file = t)
           acceptedTypes)"

text \<open>\<open>field.acceptedFileTypes?.join(', ') || 'All'\<close>\<close>

fun join :: "string \<Rightarrow> string list \<Rightarrow> string" where
  "join sep [] = []"
| "join sep [x] = x"
| "join sep (x # y # r) = x @ sep @ join sep (y # r)"

definition accepted_list :: "FieldInternal \<Rightarrow> message" where
  "accepted_list field =
     (case acceptedFileTypes field of
        None \<Rightarrow> [S ''All'']
      | Some ts \<Rightarrow> if join '', '' ts = [] then [S ''All''] else [S (join '', '' ts)])"

definition addFiles_cl :: "FieldInternal \<Rightarrow> File list option \<Rightarrow> upload \<Rightarrow> upload" where
  "addFiles_cl field newFiles u =
     (case newFiles of
        None \<Rightarrow> u
      | Some new \<Rightarrow>
          if new = [] then u
          else
            (let validFiles = filter (isFileAccepted field) new;
                 u1 = (if length validFiles < length new
                       then u\<lparr>messages := messages u
                              @ [[S ''Some files were rejected. Accepted types: ''] @ accepted_list field]\<rparr>
                       else u)
             in if length validFiles < length new \<and> validFiles = [] then u1
                else
                  (let existing = selection u1;
                       existingCount = count existing;
                       totalCount = existingCount + length validFiles;
                       added = u1\<lparr>selection := Some (files_of existing @ validFiles)\<rparr>
                   in case maxFiles field of
                        None \<Rightarrow> added
                      | Some m \<Rightarrow>
                          if m = 0 then added
                          else if m < of_nat totalCount
                          then (let remaining = m - of_nat existingCount
                                in if remaining \<le> 0
                                   then u1\<lparr>messages := messages u1
                                          @ [[S ''Maximum '', N m,
                                              S '' file(s) allowed. Please remove existing files before adding new ones.'']]\<rparr>
                                   else u1\<lparr>messages := messages u1
                                          @ [[S ''You can only add '', N remaining,
                                              S '' more file(s). Maximum limit is '', N m, S '' file(s).'']]\<rparr>)
                          else added)))"

section \<open>Example data\<close>

definition blank :: FieldInternal where
  "blank =
     \<lparr>field_id = Some ''f1'', field_type = ''text'', label = ''Field'', placeholder = None,
      tooltip = None, required = False, options = None, acceptedFileTypes = None,
      maxFiles = None, field_min = None, field_max = None, step = None,
      disableSpinners = None, validation = None\<rparr>"

definition required_text_min5 :: FieldInternal where
  "required_text_min5 =
     blank\<lparr>required := True, validation := Some (no_validation\<lparr>minLength := Some 5\<rparr>)\<rparr>"

definition required_email :: FieldInternal where
  "required_email = blank\<lparr>field_type := ''email'', required := True\<rparr>"

definition optional_email_field :: FieldInternal where
  "optional_email_field = blank\<lparr>field_type := ''email''\<rparr>"

definition date_2024 :: FieldInternal where
  "date_2024 =
     blank\<lparr>field_type := ''date'',
           validation := Some (no_validation\<lparr>minDate := Some ''2024-01-01'',
                                             maxDate := Some ''2024-12-31''\<rparr>)\<rparr>"

definition range_from5 :: FieldInternal where
  "range_from5 = blank\<lparr>field_id := Some ''r'', field_type := ''range'', field_min := Some 5\<rparr>"

definition checklist_max0 :: FieldInternal where
  "checklist_max0 =
     blank\<lparr>field_type := ''checklist'',
           validation := Some (no_validation\<lparr>maxSelections := Some 0\<rparr>)\<rparr>"

definition proto_typed :: FieldInternal where
  "proto_typed = blank\<lparr>field_type := ''__proto__''\<rparr>"

definition proto_named :: FieldInternal where
  "proto_named = blank\<lparr>field_id := Some ''__proto__'', required := True\<rparr>"

definition file_max2 :: FieldInternal where
  "file_max2 = blank\<lparr>field_type := ''file'', maxFiles := Some 2\<rparr>"

definition file1 :: File where
  "file1 = \<lparr>file_name = ''a.png'', file_size = 10, file_type = ''image/png''\<rparr>"

definition file2 :: File where
  "file2 = \<lparr>file_name = ''b.png'', file_size = 20, file_type = ''image/png''\<rparr>"

definition file3 :: File where
  "file3 = \<lparr>file_name = ''c.pdf'', file_size = 30, file_type = ''application/pdf''\<rparr>"

definition two_selected :: upload where
  "two_selected = \<lparr>selection = Some [file1, file2], messages = []\<rparr>"

definition doc_a :: Schema where
  "doc_a = \<lparr>schema_id = ''a'', schema_name = ''First'', description = None,
            schema_fields = [blank]\<rparr>"

definition doc_a' :: Schema where
  "doc_a' = \<lparr>schema_id = ''a'', schema_name = ''First, edited'', description = Some ''v2'',
             schema_fields = [blank\<lparr>field_type := ''email''\<rparr>, blank\<lparr>field_id := Some ''f2''\<rparr>]\<rparr>"

definition doc_b :: Schema where
  "doc_b = \<lparr>schema_id = ''b'', schema_name = ''Second'', description = None, schema_fields = []\<rparr>"

definition store_ba :: browser where
  "store_ba =
     \<lparr>localStorage = (\<lambda>k. Parsed (JArr [schema_json doc_b, schema_json doc_a])), console = []\<rparr>"

definition store_null :: browser where
  "store_null = \<lparr>localStorage = (\<lambda>k. Parsed JNull), console = []\<rparr>"

definition store_broken :: browser where
  "store_broken =
     \<lparr>localStorage = (\<lambda>k. if k = STORAGE_KEY_forms then Unparsable
                          else Parsed (JArr [schema_json doc_b])),
      console = []\<rparr>"

section \<open>The email pattern\<close>

lemmas email_defs = zod_email_def email_domain_def domain_label_def local_char_def
  local_end_char_def is_alnum_def is_alpha_def is_digit_def

lemma zod_email_examples:
  "zod_email ''a@b.com''" "\<not> zod_email ''not-an-email''" "\<not> zod_email []"
  by (simp_all add: email_defs)

lemma zod_email_accepts:
  "zod_email ''A.b+c_d-e@sub-1.example.org''"
  "zod_email (''o'' @ [CHR 0x27] @ ''reilly@x.io'')"
  "zod_email ''a@b-.com''"
  "zod_email ''9@8.zz''"
  by (simp_all add: email_defs)

lemma zod_email_rejects:
  "\<not> zod_email ''a@''" "\<not> zod_email ''@b.com''" "\<not> zod_email ''a@b''"
  "\<not> zod_email ''a@b.c''" "\<not> zod_email ''a@b.c0m''" "\<not> zod_email ''.a@b.com''"
  "\<not> zod_email ''a.@b.com''" "\<not> zod_email ''a..b@c.com''" "\<not> zod_email ''a@-b.com''"
  "\<not> zod_email ''a@b..com''" "\<not> zod_email ''a b@c.com''" "\<not> zod_email ''a@b@c.com''"
  "\<not> zod_email ''a@b.com.''" "\<not> zod_email ''a@b_c.com''" "\<not> zod_email ''a@.com''"
  "\<not> zod_email (''a'' @ [CHR 0x27] @ ''@b.com'')" "\<not> zod_email ''a@b.com ''"
  by (simp_all add: email_defs)

lemma split_on_nonempty: "split_on c s \<noteq> []"
  by (induction s) (auto split: list.splits)

lemma join_split:
  "concat (map (\<lambda>x. x @ [c]) (butlast (split_on c s))) @ last (split_on c s) = s"
proof (induction s)
  case Nil
  then show ?case by simp
next
  case (Cons x s)
  then show ?case
    using split_on_nonempty [of c s]
    by (cases "split_on c s") (auto split: list.splits)
qed

lemma split_on_no_sep: "c \<notin> set s \<Longrightarrow> split_on c s = [s]"
  by (induction s) (auto split: list.splits)

lemma split_on_append_sep:
  "c \<notin> set x \<Longrightarrow> split_on c (x @ c # r) = x # split_on c r"
  by (induction x) (auto split: list.splits simp: split_on_nonempty)

lemma split_on_labels:
  "list_all (\<lambda>x. c \<notin> set x) ls \<Longrightarrow> c \<notin> set t \<Longrightarrow>
   split_on c (concat (map (\<lambda>x. x @ [c]) ls) @ t) = ls @ [t]"
  by (induction ls) (auto simp: split_on_no_sep split_on_append_sep)

lemma local_char_not_at: "local_char c \<Longrightarrow> c \<noteq> CHR ''@''"
  by (auto simp: local_char_def is_alnum_def is_alpha_def is_digit_def)

lemma is_alpha_not_dot: "is_alpha c \<Longrightarrow> c \<noteq> CHR ''.''"
  by (auto simp: is_alpha_def)

lemma domain_label_no_dot: "domain_label x \<Longrightarrow> CHR ''.'' \<notin> set x"
  by (auto simp: domain_label_def is_alnum_def is_alpha_def is_digit_def list_all_iff
        split: list.splits)

text \<open>
  \<open>zod_email\<close> accepts exactly the strings of the pattern's shape: a local part, \<open>@\<close>,
  one or more labels each followed by a dot, and the letters that end it.
\<close>

lemma zod_email_iff: "zod_email s \<longleftrightarrow> email_shape s"
proof
  assume z: "zod_email s"
  define l where "l = takeWhile (\<lambda>c. c \<noteq> CHR ''@'') s"
  define r where "r = dropWhile (\<lambda>c. c \<noteq> CHR ''@'') s"
  from z obtain x d where r: "r = x # d"
    by (auto simp: zod_email_def r_def Let_def split: list.splits)
  have x: "x = CHR ''@''"
    using r hd_dropWhile [of "\<lambda>c. c \<noteq> CHR ''@''" s] by (auto simp: r_def)
  have s: "s = l @ CHR ''@'' # d"
    by (metis takeWhile_dropWhile_id l_def r_def r x)
  from z r have props: "l \<noteq> []" "hd l \<noteq> CHR ''.''" "\<not> has_double_dot s" "list_all local_char l"
      "local_end_char (last l)" "email_domain d"
    by (auto simp: zod_email_def l_def r_def Let_def split: list.splits)
  have start: "take 1 s \<noteq> ''.''"
    using props(1,2) s by (cases l) auto
  define ls where "ls = split_on CHR ''.'' d"
  from props(6) have dom: "2 \<le> length ls" "list_all domain_label (butlast ls)"
      "2 \<le> length (last ls)" "list_all is_alpha (last ls)"
    by (auto simp: email_domain_def ls_def Let_def)
  have d: "d = concat (map (\<lambda>x. x @ ''.'') (butlast ls)) @ last ls"
    using join_split [of "CHR ''.''" d] by (simp add: ls_def)
  have "butlast ls \<noteq> []" using dom(1) by (cases ls rule: rev_cases) auto
  with s d props start dom show "email_shape s"
    unfolding email_shape_def
    by (intro exI [of _ l] exI [of _ "butlast ls"] exI [of _ "last ls"]) simp
next
  assume "email_shape s"
  then obtain l labels tld where
    s: "s = l @ ''@'' @ concat (map (\<lambda>x. x @ ''.'') labels) @ tld"
    and p: "l \<noteq> []" "take 1 s \<noteq> ''.''" "\<not> has_double_dot s" "list_all local_char l"
      "local_end_char (last l)" "labels \<noteq> []" "list_all domain_label labels"
      "2 \<le> length tld" "list_all is_alpha tld"
    unfolding email_shape_def by blast
  define d where "d = concat (map (\<lambda>x. x @ ''.'') labels) @ tld"
  have noat: "\<forall>c\<in>set l. c \<noteq> CHR ''@''"
    using p(4) local_char_not_at by (auto simp: list_all_iff)
  have tw: "takeWhile (\<lambda>c. c \<noteq> CHR ''@'') s = l"
    using noat by (simp add: s takeWhile_append2)
  have dw: "dropWhile (\<lambda>c. c \<noteq> CHR ''@'') s = CHR ''@'' # d"
    using noat by (simp add: s d_def dropWhile_append2)
  have sp: "split_on CHR ''.'' d = labels @ [tld]"
    unfolding d_def
    using split_on_labels [of "CHR ''.''" labels tld] p(7,9) domain_label_no_dot is_alpha_not_dot
    by (auto simp: list_all_iff)
  have "email_domain d"
    using p(6-9) by (cases labels) (simp_all add: email_domain_def sp)
  moreover have "hd l \<noteq> CHR ''.''"
    using p(1,2) s by (cases l) auto
  ultimately show "zod_email s"
    using tw dw p by (cases l) (auto simp: zod_email_def Let_def)
qed

section \<open>The required rule and the other rules\<close>

lemmas builder_defs =
  getStringSchema_cl_def getStringSchema_fr_def fieldSchema_fv_def email_cl_def email_fr_def
  date_cl_def date_fr_def checklist_cl_def checklist_fr_def
  rules_def no_validation_def if_truthy_def if_defined_def if_nonempty_def or_default_def
  optional_or_empty_def minSel_def blank_def

text \<open>
  Where the required rule is the only rule that can fail on the empty string, the empty
  string reports exactly the required message: radio and select fields, date fields (the
  date rules let the empty string through), and text fields without length rules.
\<close>

lemma required_empty_only_required_cl:
  assumes "required f"
  shows "safeParse Number (radio_cl f) (Str [])
           = [Msg (or_default (requiredMessage (rules f)) [S ''Please select an option''])]"
    and "safeParse Number (select_cl f) (Str [])
           = [Msg (or_default (requiredMessage (rules f)) [S ''Please select an option''])]"
    and "safeParse Number (date_cl f) (Str [])
           = [Msg (or_default (requiredMessage (rules f)) [S ''This field is required''])]"
    and "minLength (rules f) = None \<Longrightarrow> maxLength (rules f) = None \<Longrightarrow>
         safeParse Number (getStringSchema_cl f) (Str [])
           = [Msg (or_default (requiredMessage (rules f)) [S ''This field is required''])]"
  using assms
  by (simp_all add: radio_cl_def select_cl_def date_cl_def getStringSchema_cl_def if_nonempty_def
        if_truthy_def Let_def split: option.splits)

lemma required_empty_only_required_fr:
  assumes "required f"
  shows "safeParse Number (radio_fr f) (Str [])
           = [Msg (or_default (requiredMessage (rules f)) [S ''Select an option''])]"
    and "safeParse Number (select_fr f) (Str [])
           = [Msg (or_default (requiredMessage (rules f)) [S ''Select an option''])]"
    and "safeParse Number (date_fr f) (Str [])
           = [Msg (or_default (requiredMessage (rules f)) [S ''This field is required.''])]"
    and "minLength (rules f) = None \<Longrightarrow> maxLength (rules f) = None \<Longrightarrow>
         safeParse Number (getStringSchema_fr f) (Str [])
           = [Msg (or_default (requiredMessage (rules f)) [S ''This field is required.''])]"
  using assms
  by (simp_all add: radio_fr_def select_fr_def date_fr_def getStringSchema_fr_def
        if_truthy_def Let_def split: option.splits)

text \<open>
  C1. The claim fails on the code for a required text field with a minimum length and for a
  required email field. The builders attach the length and format rules before the
  required rule (the form renderer's email and phone builders after it), and every rule
  runs: the empty string reports two issues, and where the required rule comes last the
  message shown is the length or format message, not the required one.
\<close>

theorem required_empty_reports_other_rules:
  "safeParse Number (getStringSchema_cl required_text_min5) (Str [])
     = [Msg [S ''Minimum '', N 5, S '' characters''], Msg [S ''This field is required'']] \<and>
   safeParse Number (getStringSchema_fr required_text_min5) (Str [])
     = [Msg [S ''Minimum '', N 5, S '' characters''], Msg [S ''This field is required.'']] \<and>
   safeParse Number (fieldSchema_fv required_text_min5) (Str [])
     = [Msg [S ''Minimum '', N 5, S '' characters required''], Msg [S ''This field is required'']] \<and>
   safeParse Number (email_cl required_email) (Str [])
     = [Msg [S ''Invalid email address''], Msg [S ''This field is required'']] \<and>
   safeParse Number (email_fr required_email) (Str [])
     = [Msg [S ''This field is required.''], Msg [S ''Invalid email'']] \<and>
   shown (safeParse Number (getStringSchema_cl required_text_min5) (Str []))
     = Some (Msg [S ''Minimum '', N 5, S '' characters'']) \<and>
   shown (safeParse Number (email_cl required_email) (Str []))
     = Some (Msg [S ''Invalid email address''])"
  by (simp add: builder_defs required_text_min5_def required_email_def zod_email_examples)

section \<open>Date bounds\<close>

text \<open>
  The checklist compiler and the form viewer compare a date with both bounds as strings:
  a non-empty value passes exactly when it lies between them.
\<close>

lemma date_cl_in_range:
  assumes "minDate (rules f) = Some lo" and "lo \<noteq> []"
    and "maxDate (rules f) = Some hi" and "hi \<noteq> []" and "s \<noteq> []"
  shows "safeParse Number (date_cl f) (Str s) = [] \<longleftrightarrow> lo \<le> s \<and> s \<le> hi"
  using assms by (cases s) (auto simp: date_cl_def if_nonempty_def optional_or_empty_def Let_def)

lemma date_fv_in_range:
  assumes "field_type f = ''date''"
    and "minDate (rules f) = Some lo" and "lo \<noteq> []"
    and "maxDate (rules f) = Some hi" and "hi \<noteq> []" and "s \<noteq> []"
  shows "safeParse Number (fieldSchema_fv f) (Str s) = [] \<longleftrightarrow> lo \<le> s \<and> s \<le> hi"
  using assms
  by (cases s) (auto simp: fieldSchema_fv_def if_nonempty_def optional_or_empty_def Let_def)

text \<open>
  C2. The claim fails on the form renderer's compiler: its date builder never reads
  \<open>minDate\<close> or \<open>maxDate\<close>, so with the bounds 2024-01-01 and 2024-12-31 both 2023-12-25
  and 2025-01-01 pass. The checklist compiler, on the same field, rejects both and accepts
  2024-06-15.
\<close>

theorem form_renderer_ignores_date_bounds:
  "safeParse Number (date_fr date_2024) (Str ''2023-12-25'') = [] \<and>
   safeParse Number (date_fr date_2024) (Str ''2025-01-01'') = [] \<and>
   safeParse Number (date_cl date_2024) (Str ''2023-12-25'')
     = [Msg [S ''Date must be on or after 2024-01-01'']] \<and>
   safeParse Number (date_cl date_2024) (Str ''2024-06-15'') = [] \<and>
   safeParse Number (date_cl date_2024) (Str ''2025-01-01'')
     = [Msg [S ''Date must be on or before 2024-12-31'']]"
  by (simp add: builder_defs date_2024_def aborted_def)

section \<open>Optional email fields\<close>

text \<open>
  C4. For an email field that is not required, each of the three compilers (the form
  viewer's validator for the field is the checklist compiler's) accepts the empty string;
  rejects every non-empty string that is not an email address, with the email-format
  message (the field's \<open>patternMessage\<close>, else the compiler's default) as its one issue;
  and accepts every email address. An email address is a string of the shape of the
  library's pattern; \<open>not-an-email\<close> is not one and \<open>a@b.com\<close> is.
\<close>

theorem optional_email:
  assumes "field_type f = ''email''" and "\<not> required f"
  shows "call_builder schemaBuilders_cl f = Inr (Validator (email_cl f)) \<and>
         call_builder schemaBuilders_fr f = Inr (Validator (email_fr f)) \<and>
         fieldSchema_fv f = email_cl f \<and>
         safeParse Number (email_cl f) (Str []) = [] \<and>
         safeParse Number (email_fr f) (Str []) = [] \<and>
         (\<forall>s. s \<noteq> [] \<longrightarrow> \<not> zod_email s \<longrightarrow>
            safeParse Number (email_cl f) (Str s)
              = [Msg (or_default (patternMessage (rules f)) [S ''Invalid email address''])] \<and>
            safeParse Number (email_fr f) (Str s)
              = [Msg (or_default (patternMessage (rules f)) [S ''Invalid email''])] \<and>
            shown (safeParse Number (email_cl f) (Str s))
              = Some (Msg (or_default (patternMessage (rules f)) [S ''Invalid email address'']))) \<and>
         (\<forall>s. zod_email s \<longrightarrow>
            safeParse Number (email_cl f) (Str s) = [] \<and>
            safeParse Number (email_fr f) (Str s) = []) \<and>
         (\<forall>s. zod_email s \<longleftrightarrow> email_shape s) \<and>
         \<not> zod_email ''not-an-email'' \<and> zod_email ''a@b.com''"
proof -
  have main: "call_builder schemaBuilders_cl f = Inr (Validator (email_cl f)) \<and>
         call_builder schemaBuilders_fr f = Inr (Validator (email_fr f)) \<and>
         fieldSchema_fv f = email_cl f \<and>
         safeParse Number (email_cl f) (Str []) = [] \<and>
         safeParse Number (email_fr f) (Str []) = [] \<and>
         (\<forall>s. s \<noteq> [] \<longrightarrow> \<not> zod_email s \<longrightarrow>
            safeParse Number (email_cl f) (Str s)
              = [Msg (or_default (patternMessage (rules f)) [S ''Invalid email address''])] \<and>
            safeParse Number (email_fr f) (Str s)
              = [Msg (or_default (patternMessage (rules f)) [S ''Invalid email''])] \<and>
            shown (safeParse Number (email_cl f) (Str s))
              = Some (Msg (or_default (patternMessage (rules f)) [S ''Invalid email address'']))) \<and>
         (\<forall>s. zod_email s \<longrightarrow>
            safeParse Number (email_cl f) (Str s) = [] \<and>
            safeParse Number (email_fr f) (Str s) = [])"
    using assms
    by (auto simp: call_builder_def lookup_def schemaBuilders_cl_def schemaBuilders_fr_def
          fieldSchema_fv_def email_cl_def email_fr_def optional_or_empty_def zod_email_examples
          aborted_def Let_def)
  have shape: "\<forall>s. zod_email s \<longleftrightarrow> email_shape s"
    using zod_email_iff by blast
  from main shape zod_email_examples(1,2) show ?thesis
    by (intro conjI) blast+
qed

theorem optional_email_witness:
  "field_type optional_email_field = ''email'' \<and> \<not> required optional_email_field \<and>
   ''not-an-email'' \<noteq> [] \<and> \<not> zod_email ''not-an-email'' \<and> zod_email ''a@b.com'' \<and>
   safeParse (\<lambda>v. None) (fieldSchema_fv optional_email_field) (Str []) = [] \<and>
   safeParse (\<lambda>v. None) (fieldSchema_fv optional_email_field) (Str ''not-an-email'')
     = [Msg [S ''Invalid email address'']] \<and>
   safeParse (\<lambda>v. None) (email_fr optional_email_field) (Str ''not-an-email'')
     = [Msg [S ''Invalid email'']] \<and>
   safeParse (\<lambda>v. None) (fieldSchema_fv optional_email_field) (Str ''a@b.com'') = []"
proof -
  have h1: "field_type optional_email_field = ''email''"
    and h2: "\<not> required optional_email_field"
    and h3: "\<And>d. or_default (patternMessage (rules optional_email_field)) d = d"
    by (simp_all add: optional_email_field_def blank_def rules_def no_validation_def or_default_def)
  note t = optional_email [OF h1 h2, of "\<lambda>v. None"]
  have n: "''not-an-email'' \<noteq> []" by simp
  from t n zod_email_examples h3
  have "safeParse (\<lambda>v. None) (email_cl optional_email_field) (Str ''not-an-email'')
          = [Msg [S ''Invalid email address'']]"
    and "safeParse (\<lambda>v. None) (email_fr optional_email_field) (Str ''not-an-email'')
          = [Msg [S ''Invalid email'']]"
    and "safeParse (\<lambda>v. None) (email_cl optional_email_field) (Str ''a@b.com'') = []"
    by metis+
  with t h1 h2 zod_email_examples show ?thesis by simp
qed

section \<open>Checklist selections\<close>

lemma parse_elems_strings: "parse_elems (safeParse Number (ZString [])) i xs = []"
  by (induction xs arbitrary: i) auto

text \<open>
  A selection passes when it has at least \<open>minSel\<close> entries (\<open>minSelections\<close> when set, else
  1 for a required field, else 0) and at most \<open>maxSelections\<close>; the checklist compiler and
  the form renderer's read a \<open>maxSelections\<close> of zero as no bound, the form viewer reads
  it as a bound.
\<close>

lemma checklist_cl_passes:
  "safeParse Number (checklist_cl f) (StrList xs) = [] \<longleftrightarrow>
     minSel f \<le> of_nat (length xs) \<and>
     (case maxSelections (rules f) of None \<Rightarrow> True
      | Some m \<Rightarrow> if m = 0 then True else of_nat (length xs) \<le> m)"
  by (auto simp: checklist_cl_def if_truthy_def parse_elems_strings aborted_def Let_def
        split: option.splits)

lemma checklist_fr_passes:
  "safeParse Number (checklist_fr f) (StrList xs) = [] \<longleftrightarrow>
     minSel f \<le> of_nat (length xs) \<and>
     (case maxSelections (rules f) of None \<Rightarrow> True
      | Some m \<Rightarrow> if m = 0 then True else of_nat (length xs) \<le> m)"
  by (auto simp: checklist_fr_def if_truthy_def parse_elems_strings aborted_def Let_def
        split: option.splits)

lemma checklist_fv_passes:
  "field_type f = ''checklist'' \<Longrightarrow>
   safeParse Number (fieldSchema_fv f) (StrList xs) = [] \<longleftrightarrow>
     minSel f \<le> of_nat (length xs) \<and>
     (case maxSelections (rules f) of None \<Rightarrow> True | Some m \<Rightarrow> of_nat (length xs) \<le> m)"
  by (auto simp: fieldSchema_fv_def if_defined_def parse_elems_strings aborted_def Let_def
        split: option.splits)

lemma required_checklist_zero_and_one:
  assumes "required f" and "minSelections (rules f) = None" and "maxSelections (rules f) = None"
  shows "safeParse Number (checklist_cl f) (StrList []) \<noteq> []"
    and "safeParse Number (checklist_cl f) (StrList [x]) = []"
    and "safeParse Number (checklist_fr f) (StrList []) \<noteq> []"
    and "safeParse Number (checklist_fr f) (StrList [x]) = []"
  using assms
  by (auto simp: checklist_cl_passes checklist_fr_passes minSel_def split: option.splits)

text \<open>
  C5. The claim fails on the checklist compiler and on the form renderer's for a
  \<open>maxSelections\<close> of zero, a value the builder's input (minimum 0) can store:
  \<open>if (v.maxSelections)\<close> skips the rule, and a selection of one option passes. The form
  viewer tests \<open>v.maxSelections !== undefined\<close> and rejects it.
\<close>

theorem maxSelections_zero_not_enforced:
  "safeParse Number (checklist_cl checklist_max0) (StrList [''a'']) = [] \<and>
   safeParse Number (checklist_fr checklist_max0) (StrList [''a'']) = [] \<and>
   safeParse Number (fieldSchema_fv checklist_max0) (StrList [''a''])
     = [Msg [S ''Select at most '', N 0, S '' option(s)'']]"
  by (simp add: builder_defs checklist_max0_def aborted_def)

section \<open>Default values of a session\<close>

lemma defaultValue_fv_table:
  "field_type f = ''checkbox'' \<Longrightarrow> defaultValue_fv f = Bool False"
  "field_type f = ''checklist'' \<Longrightarrow> defaultValue_fv f = StrList []"
  "field_type f = ''range'' \<Longrightarrow> field_min f = None \<Longrightarrow> defaultValue_fv f = Num 0"
  "field_type f = ''range'' \<Longrightarrow> field_min f = Some m \<Longrightarrow> defaultValue_fv f = Num m"
  "field_type f = ''min_max'' \<Longrightarrow> defaultValue_fv f = MinMax [] []"
  "field_type f \<notin> set [''checkbox'', ''checklist'', ''range'', ''min_max'']
     \<Longrightarrow> defaultValue_fv f = Str []"
  by (simp_all add: defaultValue_fv_def)

lemma getDefaultValue_table:
  "getDefaultValue ''checkbox'' = Value (Bool False)"
  "getDefaultValue ''checklist'' = Value (StrList [])"
  "getDefaultValue ''range'' = Value (Num 0)"
  "getDefaultValue ''min_max'' = Value (MinMax [] [])"
  "getDefaultValue ''text'' = Value (Str [])"
  "getDefaultValue ''textarea'' = Value (Str [])"
  "getDefaultValue ''number'' = Value (Str [])"
  "getDefaultValue ''email'' = Value (Str [])"
  "getDefaultValue ''phone'' = Value (Str [])"
  "getDefaultValue ''date'' = Value (Str [])"
  "getDefaultValue ''file'' = Value (Str [])"
  "getDefaultValue ''radio'' = Value (Str [])"
  "getDefaultValue ''select'' = Value (Str [])"
  by (simp_all add: getDefaultValue_def lookup_def defaults_def object_prototype_members_def)

text \<open>
  C3. The claim fails on the two renderers that call \<open>getDefaultValue\<close>: it is given the
  type tag only, so a range field starts at 0 whatever its \<open>min\<close>. For a range field with
  \<open>min = 5\<close> the form renderer and the checklist renderer bind 0; the form viewer, which
  reads \<open>field.min ?? 0\<close>, binds 5.
\<close>

theorem getDefaultValue_ignores_field_min:
  "defaultValues_fr [range_from5] ''r'' = Some (Value (Num 0)) \<and>
   defaultValues_cl Map.empty [range_from5] ''r'' = Some (Value (Num 0)) \<and>
   defaultValues_fv Map.empty [range_from5] ''r'' = Some (Num 5)"
  by (simp add: defaultValues_fr_def range_from5_def blank_def property_key_def getDefaultValue_def
        lookup_def defaults_def set_property_def defaultValue_fv_def)

section \<open>Compilation\<close>

text \<open>
  A tag that the table does not define and the prototype does not have gets \<open>z.any()\<close>,
  which every value passes; a field list without prototype names among its tags compiles.
\<close>

lemma call_builder_unknown:
  assumes "map_of table (field_type f) = None"
    and "field_type f \<notin> set object_prototype_members"
  shows "call_builder table f = Inr (Validator (ZAny []))"
  using assms by (simp add: call_builder_def lookup_def)

lemma any_passes: "safeParse Number (ZAny []) v = []"
  by simp

lemma call_builder_returns:
  "field_type f \<notin> set object_prototype_members \<Longrightarrow> \<exists>s. call_builder table f = Inr (Validator s)"
  by (simp add: call_builder_def lookup_def split: option.splits)

lemma build_returns:
  "list_all (\<lambda>f. field_type f \<notin> set object_prototype_members) fs \<Longrightarrow>
   \<exists>shape'. build table shape fs = Inr shape'"
proof (induction fs arbitrary: shape)
  case Nil
  then show ?case by simp
next
  case (Cons f fs)
  then obtain s where "call_builder table f = Inr (Validator s)"
    using call_builder_returns [of f table] by auto
  with Cons show ?case by (simp split: option.splits)
qed

text \<open>
  C6. The claim fails on the two compilers that look the builder up in \<open>schemaBuilders\<close>:
  for the tag \<open>__proto__\<close> the lookup gives the prototype object, which is truthy, so the
  fallback \<open>() => z.any()\<close> is not taken and the call throws. The form viewer's \<open>switch\<close>
  gives the same field \<open>z.any()\<close>.
\<close>

theorem prototype_tag_throws:
  "buildZodSchema_cl [proto_typed] = Inl TypeError \<and>
   buildZodSchema_fr [proto_typed] = Inl TypeError \<and>
   buildZodSchema_fv [proto_typed] ''f1'' = Some (Validator (ZAny []))"
  by (simp add: buildZodSchema_cl_def buildZodSchema_fr_def buildZodSchema_fv_def proto_typed_def
        blank_def call_builder_def lookup_def schemaBuilders_cl_def schemaBuilders_fr_def
        object_prototype_members_def set_property_def fieldSchema_fv_def)

text \<open>
  The entries of a compiled shape: a key has an entry when it is neither empty nor
  \<open>__proto__\<close> and is the id of some field, and the entry is that of the last such field.
\<close>

lemma find_snoc:
  "find p (xs @ [x]) = (case find p xs of Some y \<Rightarrow> Some y | None \<Rightarrow> if p x then Some x else None)"
  by (induction xs) auto

lemma build_fv_entry:
  "build_fv shape fs k =
     (case find (\<lambda>f. field_id f = Some k) (rev fs) of
        None \<Rightarrow> shape k
      | Some f \<Rightarrow> if k = [] \<or> k = ''__proto__'' then shape k
                  else Some (Validator (fieldSchema_fv f)))"
proof (induction fs arbitrary: shape)
  case Nil
  then show ?case by simp
next
  case (Cons f fs)
  show ?case
    by (cases "field_id f")
       (auto simp: Cons find_snoc set_property_def split: option.splits)
qed

lemma buildZodSchema_fv_entry:
  "buildZodSchema_fv fs k =
     (if k = [] \<or> k = ''__proto__'' then None
      else map_option (\<lambda>f. Validator (fieldSchema_fv f)) (find (\<lambda>f. field_id f = Some k) (rev fs)))"
  by (simp add: buildZodSchema_fv_def build_fv_entry split: option.splits)

lemma validate_field_no_entry:
  "shape k = None \<Longrightarrow> validate_field Number shape values k = Inr []"
  by (simp add: validate_field_def)

text \<open>
  C10. The claim fails for a field whose id is \<open>__proto__\<close>, a non-empty string:
  \<open>shape['__proto__'] = ...\<close> runs the prototype's setter and adds no entry, so the
  compiled object has no validator for the field and its value is never checked, though
  the field's own validator rejects it.
\<close>

theorem proto_id_has_no_entry:
  "buildZodSchema_cl [proto_named] = Inr Map.empty \<and>
   buildZodSchema_fr [proto_named] = Inr Map.empty \<and>
   buildZodSchema_fv [proto_named] = Map.empty \<and>
   validate_field Number (buildZodSchema_fv [proto_named]) (\<lambda>k. Str []) ''__proto__'' = Inr [] \<and>
   safeParse Number (fieldSchema_fv proto_named) (Str []) = [Msg [S ''This field is required'']]"
  by (simp add: buildZodSchema_cl_def buildZodSchema_fr_def buildZodSchema_fv_def proto_named_def
        blank_def call_builder_def lookup_def schemaBuilders_cl_def schemaBuilders_fr_def
        set_property_def validate_field_def builder_defs)

section \<open>Documents as JSON\<close>

text \<open>
  Every property of a document is read back from its JSON object: nothing is lost
  between \<open>JSON.stringify\<close> and the reads of the loaded value.
\<close>

lemma entries_other: "k' \<noteq> k \<Longrightarrow> map_of (entries ((k, x) # r)) k' = map_of (entries r) k'"
  by (cases x) simp_all

lemma entries_absent: "k \<notin> set (map fst r) \<Longrightarrow> map_of (entries r) k = None"
  by (induction r rule: entries.induct) auto

lemma entries_this: "k \<notin> set (map fst r) \<Longrightarrow> map_of (entries ((k, x) # r)) k = x"
  by (cases x) (simp_all add: entries_absent)

lemma str_prop_entry: "json_prop j k = map_option JStr x \<Longrightarrow> str_prop j k = x"
  by (cases x) (simp_all add: str_prop_def)

lemma num_prop_entry: "json_prop j k = map_option JNum x \<Longrightarrow> num_prop j k = x"
  by (cases x) (simp_all add: num_prop_def)

lemma bool_prop_entry: "json_prop j k = map_option JBool x \<Longrightarrow> bool_prop j k = x"
  by (cases x) (simp_all add: bool_prop_def)

lemma those_strings: "those (map string_of_json (map JStr xs)) = Some xs"
  by (induction xs) auto

lemma strings_prop_entry: "json_prop j k = map_option strings_json x \<Longrightarrow> strings_prop j k = x"
  by (cases x) (simp_all add: strings_prop_def strings_json_def those_strings del: map_map)

lemmas read_entry = json_prop_def entries_other entries_this

lemma validation_reads:
  "num_prop (validation_json v) ''minLength'' = minLength v"
  "num_prop (validation_json v) ''maxLength'' = maxLength v"
  "num_prop (validation_json v) ''minValue'' = minValue v"
  "num_prop (validation_json v) ''maxValue'' = maxValue v"
  "num_prop (validation_json v) ''minSelections'' = minSelections v"
  "num_prop (validation_json v) ''maxSelections'' = maxSelections v"
  "num_prop (validation_json v) ''maxFileSize'' = maxFileSize v"
  by (rule num_prop_entry, simp add: validation_json_def read_entry del: entries.simps)+

lemma validation_reads_str:
  "str_prop (validation_json v) ''pattern'' = pattern v"
  "str_prop (validation_json v) ''patternMessage'' = patternMessage v"
  "str_prop (validation_json v) ''minDate'' = minDate v"
  "str_prop (validation_json v) ''maxDate'' = maxDate v"
  "str_prop (validation_json v) ''requiredMessage'' = requiredMessage v"
  "str_prop (validation_json v) ''customRule'' = customRule v"
  by (rule str_prop_entry, simp add: validation_json_def read_entry del: entries.simps)+

lemma validation_roundtrip: "validation_of_json (validation_json v) = v"
  by (simp add: validation_of_json_def validation_reads validation_reads_str)

lemma field_reads_str:
  "str_prop (field_json f) ''id'' = field_id f"
  "str_prop (field_json f) ''type'' = Some (field_type f)"
  "str_prop (field_json f) ''label'' = Some (label f)"
  "str_prop (field_json f) ''placeholder'' = placeholder f"
  "str_prop (field_json f) ''tooltip'' = tooltip f"
  by (rule str_prop_entry, simp add: field_json_def read_entry del: entries.simps)+

lemma field_reads_num:
  "num_prop (field_json f) ''maxFiles'' = maxFiles f"
  "num_prop (field_json f) ''min'' = field_min f"
  "num_prop (field_json f) ''max'' = field_max f"
  "num_prop (field_json f) ''step'' = step f"
  by (rule num_prop_entry, simp add: field_json_def read_entry del: entries.simps)+

lemma field_reads_bool:
  "bool_prop (field_json f) ''required'' = Some (required f)"
  "bool_prop (field_json f) ''disableSpinners'' = disableSpinners f"
  by (rule bool_prop_entry, simp add: field_json_def read_entry del: entries.simps)+

lemma field_reads_strings:
  "strings_prop (field_json f) ''options'' = options f"
  "strings_prop (field_json f) ''acceptedFileTypes'' = acceptedFileTypes f"
  by (rule strings_prop_entry, simp add: field_json_def read_entry del: entries.simps)+

lemma field_reads_validation:
  "json_prop (field_json f) ''validation'' = map_option validation_json (validation f)"
  by (simp add: field_json_def read_entry del: entries.simps)

lemma field_roundtrip: "field_of_json (field_json f) = Some f"
  by (simp add: field_of_json_def field_reads_str field_reads_num field_reads_bool
        field_reads_strings field_reads_validation option.map_comp comp_def validation_roundtrip
        option.map_ident)

lemma fields_roundtrip: "those (map field_of_json (map field_json fs)) = Some fs"
  by (induction fs) (auto simp: field_roundtrip)

lemma schema_reads:
  "str_prop (schema_json d) ''id'' = Some (schema_id d)"
  "str_prop (schema_json d) ''name'' = Some (schema_name d)"
  "str_prop (schema_json d) ''description'' = description d"
  by (rule str_prop_entry, simp add: schema_json_def read_entry del: entries.simps)+

lemma schema_reads_fields:
  "json_prop (schema_json d) ''fields'' = Some (JArr (map field_json (schema_fields d)))"
  by (simp add: schema_json_def read_entry del: entries.simps)

lemma schema_roundtrip: "schema_of_json (schema_json d) = Some d"
  by (simp add: schema_of_json_def schema_reads schema_reads_fields fields_roundtrip del: map_map)

section \<open>The stores: loading and saving\<close>

lemma has_id_schema_json: "has_id i (schema_json d) \<longleftrightarrow> i = schema_id d"
  by (auto simp: has_id_def schema_json_def read_entry simp del: entries.simps)

lemma schema_json_not_null: "schema_json d \<noteq> JNull"
  by (simp add: schema_json_def)

lemma has_id_null: "\<not> has_id i JNull"
  by (simp add: has_id_def json_prop_def)

lemma findIndex_returns:
  "list_all (\<lambda>e. e \<noteq> JNull) (takeWhile (\<lambda>e. \<not> has_id i e) es) \<Longrightarrow>
   findIndex (id_is i) es
     = Inr (if list_ex (has_id i) es then Some (length (takeWhile (\<lambda>e. \<not> has_id i e) es)) else None)"
  by (induction es) (auto simp: id_is_def has_id_null)

lemma findIndex_throws:
  "\<not> list_all (\<lambda>e. e \<noteq> JNull) (takeWhile (\<lambda>e. \<not> has_id i e) es) \<Longrightarrow>
   findIndex (id_is i) es = Inl TypeError"
  by (induction es) (auto simp: id_is_def has_id_null split: if_splits)

lemma update_first:
  "list_ex p es \<Longrightarrow>
   es[length (takeWhile (\<lambda>e. \<not> p e) es) := x]
     = takeWhile (\<lambda>e. \<not> p e) es @ [x] @ drop 1 (dropWhile (\<lambda>e. \<not> p e) es)"
  by (induction es) auto

lemma append_last:
  "\<not> list_ex p es \<Longrightarrow>
   es @ [x] = takeWhile (\<lambda>e. \<not> p e) es @ [x] @ drop 1 (dropWhile (\<lambda>e. \<not> p e) es)"
  by (induction es) auto

lemma put_returns:
  "list_all (\<lambda>e. e \<noteq> JNull) (takeWhile (\<lambda>e. \<not> has_id (schema_id d) e) es) \<Longrightarrow>
   put d (JArr es) = Inr (JArr (replaced d es))"
  using update_first [of "has_id (schema_id d)" es "schema_json d"]
        append_last [of "has_id (schema_id d)" es "schema_json d"]
  by (simp add: put_def findIndex_returns replaced_def)

lemma find_replaced:
  "list_all (\<lambda>e. e \<noteq> JNull) (takeWhile (\<lambda>e. \<not> has_id (schema_id d) e) es) \<Longrightarrow>
   find_js (id_is (schema_id d)) (replaced d es) = Inr (Some (schema_json d))"
  unfolding replaced_def
  by (induction es) (auto simp: id_is_def has_id_schema_json schema_json_not_null has_id_null)

lemma save_returns:
  assumes "saves (schema_id d) (localStorage b key)"
  shows "\<exists>j. fst (load key msg b) = j \<and>
             put d j = Inr (JArr (replaced d (elements j))) \<and>
             find_by_id (schema_id d) (JArr (replaced d (elements j))) = Inr (Some (schema_json d))"
proof (cases "localStorage b key")
  case (Parsed j)
  with assms obtain es where j: "j = JArr es"
    and ok: "list_all (\<lambda>e. e \<noteq> JNull) (takeWhile (\<lambda>e. \<not> has_id (schema_id d) e) es)"
    by (auto simp: saves_def split: json.splits)
  with Parsed show ?thesis
    by (simp add: load_def elements_def put_returns find_by_id_def find_replaced)
qed (simp_all add: load_def elements_def put_returns find_by_id_def find_replaced)

lemma load_after_setItem:
  "load key msg (setItem key (Parsed j) b) = (j, setItem key (Parsed j) b)"
  by (simp add: load_def setItem_def)

text \<open>When the condition \<open>saves\<close> fails, the save throws and writes nothing.\<close>

lemma save_throws:
  assumes "\<not> saves (schema_id d) (localStorage b STORAGE_KEY_forms)"
  shows "saveForm d b = Inl TypeError"
  using assms
  by (auto simp: saves_def saveForm_def getForms_def load_def put_def findIndex_throws
        split: blob.splits json.splits)

lemma saveChecklist_throws:
  assumes "\<not> saves (schema_id d) (localStorage b STORAGE_KEY_checklists)"
  shows "saveChecklist d b = Inl TypeError"
  using assms
  by (auto simp: saves_def saveChecklist_def getChecklists_def load_def put_def findIndex_throws
        split: blob.splits json.splits)

text \<open>
  C7, as stated, fails: with the text \<open>null\<close> under the key, which \<open>JSON.parse\<close> accepts,
  \<open>getForms\<close> returns \<open>null\<close>, and \<open>saveForm\<close>, \<open>getForm\<close> and their checklist
  counterparts throw a TypeError outside the \<open>try\<close>.
\<close>

theorem save_onto_null_throws:
  "saveForm doc_a store_null = Inl TypeError \<and>
   saveChecklist doc_a store_null = Inl TypeError \<and>
   fst (getForm ''a'' store_null) = Inl TypeError \<and>
   fst (getChecklist ''a'' store_null) = Inl TypeError"
  by (simp add: saveForm_def saveChecklist_def getForm_def getChecklist_def getForms_def
        getChecklists_def load_def store_null_def put_def find_by_id_def)

text \<open>
  C7, amended. Let the key hold nothing, the empty string, unparsable text, or a JSON
  array with no \<open>null\<close> before its first element of the document's id (every list of
  documents is such an array). Then saving the document returns; loading by its id right
  after gives the document's JSON object, from which the document is read back whole, its
  ordered field list with every property of every field; and the stored list is the old
  one with the document in the place of the first element of its id, every other element
  where it was, or with the document appended when no element has its id.
\<close>

theorem save_then_load:
  "(saves (schema_id d) (localStorage b STORAGE_KEY_forms) \<longrightarrow>
      (\<exists>b'. saveForm d b = Inr b' \<and>
            fst (getForm (schema_id d) b') = Inr (Some (schema_json d)) \<and>
            fst (getForms b') = JArr (replaced d (elements (fst (getForms b)))))) \<and>
   (saves (schema_id d) (localStorage b STORAGE_KEY_checklists) \<longrightarrow>
      (\<exists>b'. saveChecklist d b = Inr b' \<and>
            fst (getChecklist (schema_id d) b') = Inr (Some (schema_json d)) \<and>
            fst (getChecklists b') = JArr (replaced d (elements (fst (getChecklists b)))))) \<and>
   schema_of_json (schema_json d) = Some d \<and>
   saves (schema_id d) (Parsed (JArr (map schema_json ds))) \<and>
   saves (schema_id d) NoItem \<and> saves (schema_id d) EmptyString \<and> saves (schema_id d) Unparsable"
proof -
  have forms: "saves (schema_id d) (localStorage b STORAGE_KEY_forms) \<Longrightarrow>
      (\<exists>b'. saveForm d b = Inr b' \<and>
            fst (getForm (schema_id d) b') = Inr (Some (schema_json d)) \<and>
            fst (getForms b') = JArr (replaced d (elements (fst (getForms b)))))"
    using save_returns [of d b STORAGE_KEY_forms "''Failed to load forms''"]
    by (auto simp: saveForm_def getForm_def getForms_def load_after_setItem split: prod.splits)
  have checklists: "saves (schema_id d) (localStorage b STORAGE_KEY_checklists) \<Longrightarrow>
      (\<exists>b'. saveChecklist d b = Inr b' \<and>
            fst (getChecklist (schema_id d) b') = Inr (Some (schema_json d)) \<and>
            fst (getChecklists b') = JArr (replaced d (elements (fst (getChecklists b)))))"
    using save_returns [of d b STORAGE_KEY_checklists "''Failed to load checklists''"]
    by (auto simp: saveChecklist_def getChecklist_def getChecklists_def load_after_setItem
          split: prod.splits)
  have docs: "saves (schema_id d) (Parsed (JArr (map schema_json ds)))"
    by (induction ds) (auto simp: saves_def schema_json_not_null)
  show ?thesis
    using forms checklists docs by (simp add: schema_roundtrip saves_def)
qed

theorem save_then_load_witness:
  "saves (schema_id doc_a') (localStorage store_ba STORAGE_KEY_forms) \<and>
   saves (schema_id doc_a') (localStorage store_ba STORAGE_KEY_checklists) \<and>
   (\<exists>b'. saveForm doc_a' store_ba = Inr b' \<and>
         fst (getForm ''a'' b') = Inr (Some (schema_json doc_a')) \<and>
         fst (getForms b') = JArr [schema_json doc_b, schema_json doc_a']) \<and>
   (\<exists>b'. saveChecklist doc_a' store_ba = Inr b' \<and>
         fst (getChecklist ''a'' b') = Inr (Some (schema_json doc_a')) \<and>
         fst (getChecklists b') = JArr [schema_json doc_b, schema_json doc_a']) \<and>
   schema_of_json (schema_json doc_a') = Some doc_a'"
  using save_then_load [of doc_a' store_ba "[]"]
  by (simp add: store_ba_def saves_def replaced_def elements_def getForms_def getChecklists_def
        load_def has_id_schema_json schema_json_not_null doc_a_def doc_a'_def doc_b_def)

text \<open>
  C9. When the text under the key does not parse, \<open>getForms\<close> and \<open>getChecklists\<close> return
  the empty list and log one line; nothing is thrown (the model of \<open>load\<close> has no other
  outcome), and the other store is still read as it stands.
\<close>

theorem malformed_storage_gives_empty_list:
  "(localStorage b STORAGE_KEY_forms = Unparsable \<longrightarrow>
      getForms b = (JArr [], b\<lparr>console := console b @ [''Failed to load forms'']\<rparr>) \<and>
      fst (getChecklists (snd (getForms b))) = fst (getChecklists b)) \<and>
   (localStorage b STORAGE_KEY_checklists = Unparsable \<longrightarrow>
      getChecklists b = (JArr [], b\<lparr>console := console b @ [''Failed to load checklists'']\<rparr>) \<and>
      fst (getForms (snd (getChecklists b))) = fst (getForms b))"
  by (simp add: getForms_def getChecklists_def load_def split: blob.splits)

theorem malformed_storage_gives_empty_list_witness:
  "localStorage store_broken STORAGE_KEY_forms = Unparsable \<and>
   getForms store_broken = (JArr [], store_broken\<lparr>console := [''Failed to load forms'']\<rparr>) \<and>
   fst (getChecklists (snd (getForms store_broken))) = JArr [schema_json doc_b]"
  using malformed_storage_gives_empty_list [of store_broken]
  by (simp add: store_broken_def getChecklists_def load_def STORAGE_KEY_forms_def
        STORAGE_KEY_checklists_def)

section \<open>Adding files\<close>

text \<open>Within the limit, the new files are appended to the selection.\<close>

lemma addFiles_fr_appends:
  assumes "maxFiles field = Some m" and "new \<noteq> []"
    and "of_nat (count (selection u) + length new) \<le> m"
  shows "addFiles_fr field (Some new) u = u\<lparr>selection := Some (files_of (selection u) @ new)\<rparr>"
  using assms by (auto simp: addFiles_fr_def Let_def)

text \<open>
  C8. For a file field with \<open>maxFiles\<close> set (not zero: every reader of \<open>maxFiles\<close> takes
  zero for unset, and the data model has it positive) and a non-empty list of new files:
  when the selection together with the files that would be added exceeds \<open>maxFiles\<close>, the
  selection stays as it was and a message is shown. The files that would be added are all
  the new files in the form renderer, and those of an accepted type in the checklist
  renderer, which filters first. With two files selected and \<open>maxFiles = 2\<close>, adding a third
  leaves the two.
\<close>

theorem addFiles_over_limit_rejected:
  assumes "maxFiles field = Some m" and "m \<noteq> 0" and "new \<noteq> []"
  shows "(m < of_nat (count (selection u) + length new) \<longrightarrow>
            selection (addFiles_fr field (Some new) u) = selection u \<and>
            messages (addFiles_fr field (Some new) u)
              = messages u @ [[S ''Maximum '', N m, S '' file(s) allowed'']]) \<and>
         (m < of_nat (count (selection u) + length (filter (isFileAccepted field) new)) \<longrightarrow>
            selection (addFiles_cl field (Some new) u) = selection u \<and>
            (\<exists>ms. ms \<noteq> [] \<and> messages (addFiles_cl field (Some new) u) = messages u @ ms))"
  using assms by (auto simp: addFiles_fr_def addFiles_cl_def Let_def)

theorem addFiles_over_limit_rejected_witness:
  "maxFiles file_max2 = Some 2 \<and> (2::rat) \<noteq> 0 \<and> [file3] \<noteq> [] \<and>
   (2::rat) < of_nat (count (selection two_selected) + length [file3]) \<and>
   (2::rat) < of_nat (count (selection two_selected) + length (filter (isFileAccepted file_max2) [file3])) \<and>
   selection (addFiles_fr file_max2 (Some [file3]) two_selected) = Some [file1, file2] \<and>
   messages (addFiles_fr file_max2 (Some [file3]) two_selected)
     = [[S ''Maximum '', N 2, S '' file(s) allowed'']] \<and>
   selection (addFiles_cl file_max2 (Some [file3]) two_selected) = Some [file1, file2]"
  using addFiles_over_limit_rejected [of file_max2 2 "[file3]" two_selected]
  by (simp add: file_max2_def blank_def two_selected_def count_def isFileAccepted_def)

end
